theory Spec2Isabelle
  imports Main "HOL-Library.AList"
begin

section \<open>Strings of the host language\<close>

text \<open>
  A JavaScript string is modelled as a \<^typ>\<open>string\<close>: one \<^typ>\<open>char\<close> per code unit, for the
  code units below 256. The characters the provider inspects are all ASCII.
\<close>

abbreviation bslash :: char where "bslash \<equiv> CHR 0x5C"
abbreviation dquote :: char where "dquote \<equiv> CHR 0x22"
abbreviation squote :: char where "squote \<equiv> CHR 0x27"
abbreviation space :: char where "space \<equiv> CHR 0x20"
abbreviation newline :: char where "newline \<equiv> CHR 0x0A"
abbreviation backtick :: char where "backtick \<equiv> CHR 0x60"

section \<open>The command-line tokenizer: \<open>parseCommand\<close>\<close>

text \<open>
  The loop variables of \<open>parseCommand\<close> (\<open>parts\<close>, \<open>current\<close>, \<open>inQuote\<close>, \<open>quoteChar\<close>,
  \<open>escapeNext\<close>) form the scanner state; \<open>quoteChar = None\<close> is the source's \<open>null\<close>.
\<close>

record pc_state =
  parts :: "string list"
  current :: string
  inQuote :: bool
  quoteChar :: "char option"
  escapeNext :: bool

definition pc_init :: pc_state where
  "pc_init = \<lparr>parts = [], current = [], inQuote = False, quoteChar = None, escapeNext = False\<rparr>"

text \<open>
  One iteration of the \<open>for\<close> loop at the character \<open>c = command[i]\<close>; \<open>rest\<close> is the input
  after position \<open>i\<close>, so that \<open>command[i + 1]\<close> is the head of \<open>rest\<close> and
  \<open>i + 1 < command.length\<close> is \<open>rest \<noteq> []\<close>.
\<close>

definition pc_step :: "pc_state \<Rightarrow> char \<Rightarrow> string \<Rightarrow> pc_state" where
  "pc_step st c rest =
    (if escapeNext st then st\<lparr>current := current st @ [c], escapeNext := False\<rparr>
     else if c = bslash then
       (if rest \<noteq> [] \<and> (hd rest = dquote \<or> hd rest = squote \<or> hd rest = bslash)
        then st\<lparr>escapeNext := True\<rparr>
        else st\<lparr>current := current st @ [c]\<rparr>)
     else if (c = dquote \<or> c = squote) \<and> (\<not> inQuote st \<or> Some c = quoteChar st) then
       (if \<not> inQuote st then st\<lparr>inQuote := True, quoteChar := Some c\<rparr>
        else st\<lparr>inQuote := False, quoteChar := None\<rparr>)
     else if c = space \<and> \<not> inQuote st then
       (if length (current st) > 0 then st\<lparr>parts := parts st @ [current st], current := []\<rparr>
        else st)
     else st\<lparr>current := current st @ [c]\<rparr>)"

fun pc_loop :: "pc_state \<Rightarrow> string \<Rightarrow> pc_state" where
  "pc_loop st [] = st"
| "pc_loop st (c # rest) = pc_loop (pc_step st c rest) rest"

text \<open>After the loop: the last part is pushed when it is not empty.\<close>

definition pc_finish :: "pc_state \<Rightarrow> string list" where
  "pc_finish st = (if length (current st) > 0 then parts st @ [current st] else parts st)"

definition tokens :: "string \<Rightarrow> string list" where
  "tokens command = pc_finish (pc_loop pc_init command)"

record parsed_command =
  executable :: string
  args :: "string list"

text \<open>\<open>parts[0] || ''\<close> is the empty string when there is no part; \<open>parts.slice(1)\<close> is the tail.\<close>

definition parseCommand :: "string \<Rightarrow> parsed_command" where
  "parseCommand command =
    (let ps = tokens command
     in \<lparr>executable = (case ps of [] \<Rightarrow> [] | p # _ \<Rightarrow> p), args = drop 1 ps\<rparr>)"

section \<open>String operations of the host language\<close>

text \<open>
  \<open>String.prototype.trim\<close> and the regular-expression class \<open>\s\<close> remove the same characters;
  below 256 these are tab, line feed, vertical tab, form feed, carriage return, space and the
  no-break space.
\<close>

definition isWhitespace :: "char \<Rightarrow> bool" where
  "isWhitespace c = (c = CHR 0x09 \<or> c = CHR 0x0A \<or> c = CHR 0x0B \<or> c = CHR 0x0C
     \<or> c = CHR 0x0D \<or> c = CHR 0x20 \<or> c = CHR 0xA0)"

definition trim :: "string \<Rightarrow> string" where
  "trim s = rev (dropWhile isWhitespace (rev (dropWhile isWhitespace s)))"

definition startsWith :: "string \<Rightarrow> string \<Rightarrow> bool" where
  "startsWith s p = (take (length p) s = p)"

definition endsWith :: "string \<Rightarrow> string \<Rightarrow> bool" where
  "endsWith s p = (length p \<le> length s \<and> drop (length s - length p) s = p)"

text \<open>\<open>indexOf\<close> of a character; \<open>None\<close> is the source's \<open>-1\<close>.\<close>

fun indexOf :: "string \<Rightarrow> char \<Rightarrow> nat option" where
  "indexOf [] c = None"
| "indexOf (x # xs) c = (if x = c then Some 0 else map_option Suc (indexOf xs c))"

text \<open>\<open>toLowerCase\<close> on the code units below 256: the ASCII and the Latin-1 capital letters.\<close>

definition lowerChar :: "char \<Rightarrow> char" where
  "lowerChar c =
    (let n = (of_char c :: nat)
     in if (65 \<le> n \<and> n \<le> 90) \<or> (192 \<le> n \<and> n \<le> 222 \<and> n \<noteq> 215) then char_of (n + 32) else c)"

definition toLowerCase :: "string \<Rightarrow> string" where
  "toLowerCase s = map lowerChar s"

text \<open>\<open>Array.prototype.join(' ')\<close>.\<close>

fun joinSpace :: "string list \<Rightarrow> string" where
  "joinSpace [] = []"
| "joinSpace [x] = x"
| "joinSpace (x # y # ys) = x @ [space] @ joinSpace (y # ys)"

text \<open>
  A value of the source that is a string, \<open>undefined\<close> or \<open>null\<close> is a \<^typ>\<open>string option\<close>; it
  is truthy when it is a string that is not empty.
\<close>

definition truthy :: "string option \<Rightarrow> bool" where
  "truthy x = (case x of None \<Rightarrow> False | Some s \<Rightarrow> s \<noteq> [])"

text \<open>
  A plain object with string values is an association list in insertion order; \<open>obj[key]\<close> is
  \<^const>\<open>map_of\<close> and \<open>obj[key] = value\<close> is \<^const>\<open>AList.update\<close>, which keeps the position of
  a key that is already present. Keys inherited from \<open>Object.prototype\<close> are not modelled.
\<close>

type_synonym js_object = "(string \<times> string) list"

section \<open>The RC file parser\<close>

type_synonym environment_map = "string \<rightharpoonup> string"

fun findUnquotedChar_loop :: "string \<Rightarrow> char \<Rightarrow> nat \<Rightarrow> bool \<Rightarrow> bool \<Rightarrow> bool \<Rightarrow> nat option" where
  "findUnquotedChar_loop [] ch i inSingleQuote inDoubleQuote escaped = None"
| "findUnquotedChar_loop (c # str) ch i inSingleQuote inDoubleQuote escaped =
    (if escaped then findUnquotedChar_loop str ch (Suc i) inSingleQuote inDoubleQuote False
     else if c = bslash then findUnquotedChar_loop str ch (Suc i) inSingleQuote inDoubleQuote True
     else if c = squote \<and> \<not> inDoubleQuote
       then findUnquotedChar_loop str ch (Suc i) (\<not> inSingleQuote) inDoubleQuote False
     else if c = dquote \<and> \<not> inSingleQuote
       then findUnquotedChar_loop str ch (Suc i) inSingleQuote (\<not> inDoubleQuote) False
     else if c = ch \<and> \<not> inSingleQuote \<and> \<not> inDoubleQuote then Some i
     else findUnquotedChar_loop str ch (Suc i) inSingleQuote inDoubleQuote False)"

definition findUnquotedChar :: "string \<Rightarrow> char \<Rightarrow> nat option" where
  "findUnquotedChar str ch = findUnquotedChar_loop str ch 0 False False False"

text \<open>\<open>str.slice(1, -1)\<close> drops the first and the last character.\<close>

definition unquote :: "string \<Rightarrow> string" where
  "unquote str =
    (if str = [] then str
     else if (startsWith str [dquote] \<and> endsWith str [dquote])
           \<or> (startsWith str [squote] \<and> endsWith str [squote])
       then butlast (tl str)
     else str)"

text \<open>
  \<open>expandVariables\<close> replaces, from left to right, every match of
  \<open>/\$\{([^}]+)\}|\$(\w+)/g\<close> by the value of the named environment variable when that value is
  truthy, and by the match itself otherwise. At a dollar sign the first alternative matches when an
  opening brace, at least one character other than a closing brace, and a closing brace follow; the
  second one when at least one word character follows, and it takes them all.
\<close>

definition isWordChar :: "char \<Rightarrow> bool" where
  "isWordChar c =
    (let n = (of_char c :: nat)
     in (65 \<le> n \<and> n \<le> 90) \<or> (97 \<le> n \<and> n \<le> 122) \<or> (48 \<le> n \<and> n \<le> 57) \<or> n = 95)"

definition envOrMatch :: "environment_map \<Rightarrow> string \<Rightarrow> string \<Rightarrow> string" where
  "envOrMatch e varName match = (if truthy (e varName) then the (e varName) else match)"

definition braceMatch :: "string \<Rightarrow> bool" where
  "braceMatch s = (s \<noteq> [] \<and> hd s = CHR ''{''
     \<and> takeWhile (\<lambda>x. x \<noteq> CHR ''}'') (tl s) \<noteq> []
     \<and> dropWhile (\<lambda>x. x \<noteq> CHR ''}'') (tl s) \<noteq> [])"

function expandVariables :: "environment_map \<Rightarrow> string \<Rightarrow> string" where
  "expandVariables e [] = []"
| "expandVariables e (c # s) =
    (if c = CHR ''$'' \<and> braceMatch s then
       (let braceVar = takeWhile (\<lambda>x. x \<noteq> CHR ''}'') (tl s);
            after = tl (dropWhile (\<lambda>x. x \<noteq> CHR ''}'') (tl s))
        in envOrMatch e braceVar (c # CHR ''{'' # braceVar @ [CHR ''}'']) @ expandVariables e after)
     else if c = CHR ''$'' \<and> takeWhile isWordChar s \<noteq> [] then
       (let simpleVar = takeWhile isWordChar s
        in envOrMatch e simpleVar (c # simpleVar) @ expandVariables e (dropWhile isWordChar s))
     else c # expandVariables e s)"
  by pat_completeness auto
termination
proof (relation "measure (\<lambda>(e, s). length s)")
  show "wf (measure (\<lambda>(e, s). length s))" by simp
next
  fix e :: environment_map and c :: char and s x xa
  assume "xa = tl (dropWhile (\<lambda>x. x \<noteq> CHR ''}'') (tl s))"
  moreover have "length (dropWhile (\<lambda>x. x \<noteq> CHR ''}'') (tl s)) \<le> length s"
    by (metis diff_le_self le_trans length_dropWhile_le length_tl)
  ultimately show "((e, xa), (e, c # s)) \<in> measure (\<lambda>(e, s). length s)"
    by simp
next
  fix e :: environment_map and c :: char and s x
  have "length (dropWhile isWordChar s) \<le> length s"
    by (rule length_dropWhile_le)
  then show "((e, dropWhile isWordChar s), (e, c # s)) \<in> measure (\<lambda>(e, s). length s)"
    by simp
next
  fix e :: environment_map and c :: char and s
  show "((e, s), (e, c # s)) \<in> measure (\<lambda>(e, s). length s)"
    by simp
qed

record rc_data =
  variables :: js_object
  aliases :: js_object
  exports :: js_object
  raw :: "string list"
  rc_path :: string

text \<open>\<open>parseAlias\<close>: the line starts with \<open>alias \<close>, so \<open>line.substring(6)\<close> drops six characters.\<close>

definition parseAlias :: "string \<Rightarrow> js_object \<Rightarrow> js_object" where
  "parseAlias line als =
    (let aliasContent = trim (drop 6 line)
     in case findUnquotedChar aliasContent (CHR ''='') of
          None \<Rightarrow> als
        | Some equalsIndex \<Rightarrow>
            (let name = trim (take equalsIndex aliasContent);
                 val = unquote (trim (drop (equalsIndex + 1) aliasContent))
             in if name \<noteq> [] \<and> val \<noteq> [] then AList.update name val als else als))"

definition parseExport :: "environment_map \<Rightarrow> string \<Rightarrow> js_object \<Rightarrow> js_object" where
  "parseExport e line exps =
    (let exportContent = trim (drop 7 line)
     in case indexOf exportContent (CHR ''='') of
          None \<Rightarrow> exps
        | Some equalsIndex \<Rightarrow>
            (let name = trim (take equalsIndex exportContent);
                 val = unquote (trim (drop (equalsIndex + 1) exportContent))
             in if name \<noteq> [] then AList.update name (expandVariables e val) exps else exps))"

definition parseVariable :: "environment_map \<Rightarrow> string \<Rightarrow> js_object \<Rightarrow> js_object" where
  "parseVariable e line vars =
    (case indexOf line (CHR ''='') of
       None \<Rightarrow> vars
     | Some equalsIndex \<Rightarrow>
         (let name = trim (take equalsIndex line);
              val = unquote (trim (drop (equalsIndex + 1) line))
          in if name \<noteq> [] then AList.update name (expandVariables e val) vars else vars))"

text \<open>\<open>content.split('\n')\<close>: a string without a line feed is one line, the empty string too.\<close>

fun splitLines :: "string \<Rightarrow> string list" where
  "splitLines [] = [[]]"
| "splitLines (c # s) =
    (if c = newline then [] # splitLines s
     else (case splitLines s of [] \<Rightarrow> [[c]] | l # ls \<Rightarrow> (c # l) # ls))"

text \<open>
  The continuation loop: while the line ends in a backslash and a further line exists, the
  backslash is cut, and the next line, trimmed, is joined with a space. It returns the full line
  and the lines that remain.
\<close>

fun joinContinuations :: "string \<Rightarrow> string list \<Rightarrow> string \<times> string list" where
  "joinContinuations fullLine [] = (fullLine, [])"
| "joinContinuations fullLine (l # ls) =
    (if endsWith fullLine [bslash]
     then joinContinuations (trim (butlast fullLine) @ [space] @ trim l) ls
     else (fullLine, l # ls))"

definition parseLine :: "environment_map \<Rightarrow> string \<Rightarrow> rc_data \<Rightarrow> rc_data" where
  "parseLine e fullLine config =
    (if startsWith fullLine ''alias '' then config\<lparr>aliases := parseAlias fullLine (aliases config)\<rparr>
     else if startsWith fullLine ''export ''
       then config\<lparr>exports := parseExport e fullLine (exports config)\<rparr>
     else if CHR ''='' \<in> set fullLine \<and> space \<notin> set fullLine
       then config\<lparr>variables := parseVariable e fullLine (variables config)\<rparr>
     else config\<lparr>raw := raw config @ [fullLine]\<rparr>)"

function parseLines :: "environment_map \<Rightarrow> rc_data \<Rightarrow> string list \<Rightarrow> rc_data" where
  "parseLines e config [] = config"
| "parseLines e config (l # ls) =
    (let line = trim l
     in if line = [] \<or> startsWith line ''#'' then parseLines e config ls
        else parseLines e (parseLine e (fst (joinContinuations line ls)) config)
               (snd (joinContinuations line ls)))"
  by pat_completeness auto
termination
proof (relation "measure (\<lambda>(e, config, ls). length ls)")
  show "wf (measure (\<lambda>(e, config, ls). length ls))" by simp
next
  fix e :: environment_map and config :: rc_data and l :: string and ls :: "string list"
  show "((e, config, ls), (e, config, l # ls)) \<in> measure (\<lambda>(e, config, ls). length ls)"
    by simp
next
  fix e :: environment_map and config :: rc_data and l :: string and ls :: "string list"
    and x :: string
  have "length (snd (joinContinuations f ks)) \<le> length ks" for f ks
    by (induction f ks rule: joinContinuations.induct) auto
  then have "length (snd (joinContinuations x ls)) < Suc (length ls)"
    by (simp add: less_Suc_eq_le)
  then show "((e, parseLine e (fst (joinContinuations x ls)) config, snd (joinContinuations x ls)),
      (e, config, l # ls)) \<in> measure (\<lambda>(e, config, ls). length ls)"
    by simp
qed

definition parseClaudeRC :: "environment_map \<Rightarrow> string \<Rightarrow> rc_data" where
  "parseClaudeRC e content =
    parseLines e \<lparr>variables = [], aliases = [], exports = [], raw = [], rc_path = []\<rparr>
      (splitLines content)"

section \<open>Alias expansion over a command: \<open>applyAliases\<close>\<close>

record aa_state =
  aa_parts :: "string list"
  aa_current :: string
  aa_inQuote :: bool
  aa_quoteChar :: "char option"

definition aa_step :: "aa_state \<Rightarrow> char \<Rightarrow> aa_state" where
  "aa_step st c =
    (if (c = dquote \<or> c = squote) \<and> (\<not> aa_inQuote st \<or> Some c = aa_quoteChar st) then
       (if \<not> aa_inQuote st
        then st\<lparr>aa_inQuote := True, aa_quoteChar := Some c, aa_current := aa_current st @ [c]\<rparr>
        else st\<lparr>aa_inQuote := False, aa_quoteChar := None, aa_current := aa_current st @ [c]\<rparr>)
     else if c = space \<and> \<not> aa_inQuote st then
       (if aa_current st \<noteq> [] then st\<lparr>aa_parts := aa_parts st @ [aa_current st], aa_current := []\<rparr>
        else st)
     else st\<lparr>aa_current := aa_current st @ [c]\<rparr>)"

definition aa_split :: "string \<Rightarrow> string list" where
  "aa_split command =
    (let st = foldl aa_step \<lparr>aa_parts = [], aa_current = [], aa_inQuote = False, aa_quoteChar = None\<rparr>
                command
     in if aa_current st \<noteq> [] then aa_parts st @ [aa_current st] else aa_parts st)"

definition expandPart :: "js_object \<Rightarrow> string \<Rightarrow> string" where
  "expandPart als part =
    (let unquotedPart = unquote part
     in if truthy (map_of als unquotedPart) then the (map_of als unquotedPart) else part)"

definition applyAliases :: "string \<Rightarrow> js_object \<Rightarrow> string" where
  "applyAliases command als =
    (if length (map fst als) = 0 then command
     else joinSpace (map (expandPart als) (aa_split command)))"

section \<open>The machine around the provider\<close>

text \<open>
  What the provider reads from its process and its file system. \<open>execSync\<close> gives the output of
  a shell command, or \<open>None\<close> when it throws; \<open>join\<close> is \<open>path.join\<close>; \<open>can_write\<close> and
  \<open>can_unlink\<close> say whether \<open>writeFileSync\<close> and \<open>unlinkSync\<close> succeed on a path.
\<close>

record file_node =
  file_content :: string
  readable :: bool
  executable_bit :: bool

record world =
  env :: environment_map
  files :: "string \<rightharpoonup> file_node"
  cwd :: string
  homedir :: string
  tmpdir :: string
  platform :: string
  execSync :: "string \<Rightarrow> string option"
  join :: "string list \<Rightarrow> string"
  now :: nat
  can_write :: "string \<Rightarrow> bool"
  can_unlink :: "string \<Rightarrow> bool"

definition existsSync :: "world \<Rightarrow> string \<Rightarrow> bool" where
  "existsSync w p = (files w p \<noteq> None)"

text \<open>\<open>accessSync(path, F_OK | X_OK)\<close> returns (\<open>True\<close>) or throws (\<open>False\<close>).\<close>

definition accessSync_X :: "world \<Rightarrow> string \<Rightarrow> bool" where
  "accessSync_X w p = (case files w p of None \<Rightarrow> False | Some f \<Rightarrow> executable_bit f)"

text \<open>\<open>readFileSync\<close> gives the content, or \<open>None\<close> when it throws.\<close>

definition readFileSync :: "world \<Rightarrow> string \<Rightarrow> string option" where
  "readFileSync w p =
    (case files w p of None \<Rightarrow> None | Some f \<Rightarrow> if readable f then Some (file_content f) else None)"

section \<open>Loading the RC file and the effective configuration\<close>

text \<open>
  \<open>loadClaudeRC\<close> as the provider calls it, without options: the first of the three standard
  paths that exists and can be read is parsed; a file that cannot be read is skipped.
\<close>

fun loadFirst :: "world \<Rightarrow> string list \<Rightarrow> rc_data option" where
  "loadFirst w [] = None"
| "loadFirst w (p # ps) =
    (if existsSync w p then
       (case readFileSync w p of
          Some c \<Rightarrow> Some ((parseClaudeRC (env w) c)\<lparr>rc_path := p\<rparr>)
        | None \<Rightarrow> loadFirst w ps)
     else loadFirst w ps)"

definition loadClaudeRC :: "world \<Rightarrow> rc_data option" where
  "loadClaudeRC w =
    loadFirst w [join w [cwd w, ''.clauderc''],
                 join w [homedir w, ''.clauderc''],
                 join w [homedir w, ''.config'', ''claude'', ''clauderc'']]"

text \<open>
  The effective configuration; the provider adds \<open>rawAliases\<close> to it. \<open>Object.assign\<close> onto the
  empty object and the spread copy give the same entries in the same order.
\<close>

record rc_config =
  command :: "string option"
  model :: "string option"
  cfg_aliases :: js_object
  environment :: js_object
  rawAliases :: js_object

definition getEffectiveConfig :: "world \<Rightarrow> rc_data option \<Rightarrow> rc_config" where
  "getEffectiveConfig w rcd =
    (let config0 = \<lparr>command = None, model = None, cfg_aliases = [], environment = [], rawAliases = []\<rparr>;
         config1 = (case rcd of
                      None \<Rightarrow> config0
                    | Some rc \<Rightarrow>
                        config0\<lparr>command := (if truthy (map_of (variables rc) ''command'')
                                             then map_of (variables rc) ''command'' else None),
                                model := (if truthy (map_of (variables rc) ''model'')
                                           then map_of (variables rc) ''model'' else None),
                                cfg_aliases := aliases rc,
                                environment := exports rc\<rparr>);
         config2 = (if truthy (env w ''CLAUDE_CODE_COMMAND'')
                    then config1\<lparr>command := env w ''CLAUDE_CODE_COMMAND''\<rparr> else config1)
     in if truthy (env w ''CLAUDE_CODE_MODEL'')
        then config2\<lparr>model := env w ''CLAUDE_CODE_MODEL''\<rparr> else config2)"

section \<open>The provider instance\<close>

text \<open>
  \<open>_detectedCommand\<close> is \<open>undefined\<close> before detection, \<open>false\<close> after a detection that found
  nothing, and the path otherwise.
\<close>

datatype detected = Undefined | NotFound | Detected string

record provider =
  detectedCommand :: detected
  rcConfig :: "rc_config option"
  rcConfigLoaded :: bool

definition new_provider :: provider where
  "new_provider = \<lparr>detectedCommand = Undefined, rcConfig = None, rcConfigLoaded = False\<rparr>"

definition getRCConfig :: "provider \<Rightarrow> world \<Rightarrow> rc_config option \<times> provider" where
  "getRCConfig inst w =
    (if \<not> rcConfigLoaded inst then
       (let inst1 = inst\<lparr>rcConfigLoaded := True\<rparr>
        in case loadClaudeRC w of
             None \<Rightarrow> (rcConfig inst1, inst1)
           | Some rcData \<Rightarrow>
               (let cfg = (getEffectiveConfig w (Some rcData))\<lparr>rawAliases := aliases rcData\<rparr>
                in (Some cfg, inst1\<lparr>rcConfig := Some cfg\<rparr>)))
     else (rcConfig inst, inst))"

definition resolveModelAlias :: "string \<Rightarrow> string option" where
  "resolveModelAlias modelName =
    (if modelName = [] then None
     else (let builtin = [(''opus'', ''claude-opus-4-20250514''),
                          (''sonnet'', ''claude-sonnet-4-20250514''),
                          (''haiku'', ''claude-3-haiku-20240307'')];
               lowerName = toLowerCase modelName
           in if truthy (map_of builtin lowerName) then map_of builtin lowerName
              else Some modelName))"

subsection \<open>Auto-detection\<close>

definition commonPaths :: "world \<Rightarrow> string list" where
  "commonPaths w =
    (if platform w = ''darwin'' then
       [''/Applications/Claude.app/Contents/MacOS/claude'',
        ''/usr/local/bin/claude'',
        join w [homedir w, ''.claude'', ''local'', ''claude''],
        join w [homedir w, ''.npm-global'', ''bin'', ''claude''],
        ''/usr/local/lib/node_modules/@anthropic-ai/claude-code/dist/claude.js'']
     else
       [''/usr/bin/claude'',
        join w [homedir w, ''.claude'', ''local'', ''claude''],
        join w [homedir w, ''.npm-global'', ''bin'', ''claude''],
        ''/usr/lib/node_modules/@anthropic-ai/claude-code/dist/claude.js''])"

fun firstExecutable :: "world \<Rightarrow> string list \<Rightarrow> string option" where
  "firstExecutable w [] = None"
| "firstExecutable w (p # ps) =
    (if existsSync w p \<and> accessSync_X w p then Some p else firstExecutable w ps)"

definition whichClaude :: "world \<Rightarrow> string option" where
  "whichClaude w =
    (let pathCommand = (if platform w = ''win32'' then ''where claude'' else ''which claude'')
     in case execSync w pathCommand of
          None \<Rightarrow> None
        | Some out \<Rightarrow> (let result = trim out
                       in if result \<noteq> [] \<and> existsSync w result then Some result else None))"

definition detectClaudeCommand :: "provider \<Rightarrow> world \<Rightarrow> string option \<times> provider" where
  "detectClaudeCommand inst w =
    (case detectedCommand inst of
       NotFound \<Rightarrow> (None, inst)
     | Detected p \<Rightarrow> (Some p, inst)
     | Undefined \<Rightarrow>
         (case whichClaude w of
            Some result \<Rightarrow> (Some result, inst\<lparr>detectedCommand := Detected result\<rparr>)
          | None \<Rightarrow>
              (case firstExecutable w (commonPaths w) of
                 Some p \<Rightarrow> (Some p, inst\<lparr>detectedCommand := Detected p\<rparr>)
               | None \<Rightarrow> (None, inst\<lparr>detectedCommand := NotFound\<rparr>))))"

section \<open>Command resolution: \<open>getClaudeCommand\<close> and \<open>getClaudeCommandParsed\<close>\<close>

record params =
  claudeCodeCommand :: "string option"
  modelId :: "string option"

text \<open>\<open>rcConfig?.command\<close> and \<open>rcConfig?.model\<close>: \<open>undefined\<close> when there is no configuration.\<close>

definition rcCommand :: "rc_config option \<Rightarrow> string option" where
  "rcCommand rc = (case rc of None \<Rightarrow> None | Some c \<Rightarrow> command c)"

definition rcModel :: "rc_config option \<Rightarrow> string option" where
  "rcModel rc = (case rc of None \<Rightarrow> None | Some c \<Rightarrow> model c)"

text \<open>The choice of \<open>baseCommand\<close>; detection runs, and fills its cache, only in the last branch.\<close>

definition selectBaseCommand ::
  "params \<Rightarrow> world \<Rightarrow> rc_config option \<Rightarrow> provider \<Rightarrow> string option \<times> provider" where
  "selectBaseCommand p w rc inst =
    (if truthy (claudeCodeCommand p) then (claudeCodeCommand p, inst)
     else if truthy (env w ''CLAUDE_CODE_COMMAND'') then (env w ''CLAUDE_CODE_COMMAND'', inst)
     else if truthy (rcCommand rc) then (rcCommand rc, inst)
     else (case detectClaudeCommand inst w of
             (det, inst') \<Rightarrow> (if truthy det then det else None, inst')))"

text \<open>The pair \<open>(modelToUse, modelArgs)\<close>.\<close>

definition selectModel :: "params \<Rightarrow> world \<Rightarrow> rc_config option \<Rightarrow> string option \<times> string option" where
  "selectModel p w rc =
    (if truthy (modelId p) then
       (case rc of
          Some c \<Rightarrow> (if truthy (map_of (rawAliases c) (the (modelId p)))
                     then (None, map_of (rawAliases c) (the (modelId p)))
                     else (resolveModelAlias (the (modelId p)), None))
        | None \<Rightarrow> (resolveModelAlias (the (modelId p)), None))
     else if truthy (env w ''CLAUDE_CODE_MODEL'')
       then (resolveModelAlias (the (env w ''CLAUDE_CODE_MODEL'')), None)
     else if truthy (rcModel rc) then (resolveModelAlias (the (rcModel rc)), None)
     else (None, None))"

text \<open>
  \<open>args.some((arg, index) => arg === '--model' && index < args.length - 1)\<close>; the comparison is
  on integers, since \<open>args.length - 1\<close> is \<open>-1\<close> for the empty list.
\<close>

fun someIndexed :: "('a \<Rightarrow> nat \<Rightarrow> bool) \<Rightarrow> 'a list \<Rightarrow> nat \<Rightarrow> bool" where
  "someIndexed P [] i = False"
| "someIndexed P (x # xs) i = (P x i \<or> someIndexed P xs (Suc i))"

definition hasModelFlag :: "string list \<Rightarrow> bool" where
  "hasModelFlag as =
    someIndexed (\<lambda>arg index. arg = ''--model'' \<and> int index < int (length as) - 1) as 0"

text \<open>The command after \<open>applyAliases\<close>, which runs when an RC configuration is loaded.\<close>

definition aliasedCommand :: "rc_config option \<Rightarrow> string \<Rightarrow> string" where
  "aliasedCommand rc baseCommand =
    (case rc of None \<Rightarrow> baseCommand | Some c \<Rightarrow> applyAliases baseCommand (rawAliases c))"

definition finalArgs :: "string list \<Rightarrow> string option \<Rightarrow> string option \<Rightarrow> string list" where
  "finalArgs as modelToUse modelArgs =
    (if truthy modelArgs then as @ args (parseCommand (''dummy '' @ the modelArgs))
     else if truthy modelToUse \<and> \<not> hasModelFlag as then as @ [''--model'', the modelToUse]
     else as)"

text \<open>
  The two resolution methods have the same body up to their \<open>return\<close> statement; that body is
  \<open>getClaudeCommandParsed\<close>, and \<open>getClaudeCommand\<close> joins its result into one string. Both
  return the instance with its caches filled.
\<close>

definition getClaudeCommandParsed ::
  "provider \<Rightarrow> world \<Rightarrow> params \<Rightarrow> parsed_command option \<times> provider" where
  "getClaudeCommandParsed inst w p =
    (case getRCConfig inst w of
       (rc, inst1) \<Rightarrow>
         (case selectBaseCommand p w rc inst1 of
            (baseCommand, inst2) \<Rightarrow>
              (if \<not> truthy baseCommand then (None, inst2)
               else (let (modelToUse, modelArgs) = selectModel p w rc;
                         parsed = parseCommand (aliasedCommand rc (the baseCommand))
                     in (Some \<lparr>executable = executable parsed,
                               args = finalArgs (args parsed) modelToUse modelArgs\<rparr>, inst2)))))"

definition commandString :: "parsed_command \<Rightarrow> string" where
  "commandString r =
    executable r @ (if length (args r) > 0 then [space] @ joinSpace (args r) else [])"

definition getClaudeCommand :: "provider \<Rightarrow> world \<Rightarrow> params \<Rightarrow> string option \<times> provider" where
  "getClaudeCommand inst w p =
    (case getClaudeCommandParsed inst w p of (r, inst') \<Rightarrow> (map_option commandString r, inst'))"

definition isAvailable :: "provider \<Rightarrow> world \<Rightarrow> params \<Rightarrow> bool \<times> provider" where
  "isAvailable inst w p =
    (case getClaudeCommand inst w p of (c, inst') \<Rightarrow> (c \<noteq> None, inst'))"

section \<open>The command executor: \<open>executeClaudeCode\<close>\<close>

text \<open>
  An error object is its message. \<open>Error\<close> is made by \<open>new Error\<close> in the source;
  \<open>RuntimeError\<close> comes from the runtime (the file system, the child process) and names its origin.
\<close>

datatype js_error = Error string | RuntimeError string

definition digitChar :: "nat \<Rightarrow> char" where
  "digitChar d = char_of (48 + d)"

function showNat :: "nat \<Rightarrow> string" where
  "showNat n = (if n < 10 then [digitChar n] else showNat (n div 10) @ [digitChar (n mod 10)])"
  by pat_completeness auto
termination
  by (relation "measure id") auto

declare showNat.simps [simp del]

definition showInt :: "int \<Rightarrow> string" where
  "showInt i = (if i < 0 then CHR ''-'' # showNat (nat (- i)) else showNat (nat i))"

text \<open>The exit code handed to the \<open>close\<close> handler is an integer, or \<open>null\<close> after a signal.\<close>

definition showCode :: "int option \<Rightarrow> string" where
  "showCode code = (case code of None \<Rightarrow> ''null'' | Some i \<Rightarrow> showInt i)"

subsection \<open>Merging the RC exports into the process environment\<close>

definition mergeEntry :: "environment_map \<Rightarrow> string \<times> string \<Rightarrow> environment_map" where
  "mergeEntry e kv = (if \<not> truthy (e (fst kv)) then e(fst kv \<mapsto> snd kv) else e)"

definition mergeEnvironment :: "js_object \<Rightarrow> environment_map \<Rightarrow> environment_map" where
  "mergeEnvironment entries e = foldl mergeEntry e entries"

subsection \<open>The promise around the child process\<close>

text \<open>
  What happens after the spawn is a sequence of events in the order in which their handlers run:
  data on the two output streams, the \<open>close\<close> and \<open>error\<close> events of the child, and the
  five-minute timer. A promise keeps its first settlement; \<open>clearTimeout\<close> disarms the timer.
\<close>

datatype child_event =
    StdoutData string
  | StderrData string
  | Close "int option"
  | ChildError js_error
  | TimerFired

record exec_state =
  stdout :: string
  stderr :: string
  settled :: "(js_error + string) option"
  timerArmed :: bool
  killed :: bool

definition settle :: "js_error + string \<Rightarrow> exec_state \<Rightarrow> exec_state" where
  "settle r st = (if settled st = None then st\<lparr>settled := Some r\<rparr> else st)"

definition onClose :: "int option \<Rightarrow> exec_state \<Rightarrow> exec_state" where
  "onClose code st =
    (let st1 = st\<lparr>timerArmed := False\<rparr>
     in if code \<noteq> Some 0
        then settle (Inl (Error (''Claude Code error (code '' @ showCode code @ ''): '' @ stderr st1))) st1
        else if stderr st1 \<noteq> [] \<and> stdout st1 = []
        then settle (Inl (Error (''Claude Code error: '' @ stderr st1))) st1
        else settle (Inr (trim (stdout st1))) st1)"

definition handleEvent :: "exec_state \<Rightarrow> child_event \<Rightarrow> exec_state" where
  "handleEvent st ev =
    (case ev of
       StdoutData d \<Rightarrow> st\<lparr>stdout := stdout st @ d\<rparr>
     | StderrData d \<Rightarrow> st\<lparr>stderr := stderr st @ d\<rparr>
     | Close code \<Rightarrow> onClose code st
     | ChildError e \<Rightarrow> settle (Inl e) (st\<lparr>timerArmed := False\<rparr>)
     | TimerFired \<Rightarrow>
         (if timerArmed st
          then settle (Inl (Error ''Claude Code timed out after 5 minutes''))
                 (st\<lparr>timerArmed := False, killed := True\<rparr>)
          else st))"

definition exec_start :: exec_state where
  "exec_start = \<lparr>stdout = [], stderr = [], settled = None, timerArmed = True, killed = False\<rparr>"

definition runChild :: "child_event list \<Rightarrow> exec_state" where
  "runChild evs = foldl handleEvent exec_start evs"

subsection \<open>The method\<close>

definition notFoundMessage :: string where
  "notFoundMessage =
    ''Claude Code not found. Please install Claude Code:'' @ [newline] @
    ''  - Download from: https://claude.ai/code'' @ [newline] @
    ''  - Install via npm: npm install -g @anthropic-ai/claude-code'' @ [newline] @
    ''  - Or set CLAUDE_CODE_COMMAND environment variable'' @ [newline] @
    ''  - Or create a .clauderc file with your configuration'' @ [newline] @
    ''  - Example: export CLAUDE_CODE_COMMAND='' @ [dquote] @ ''/path/to/claude'' @ [dquote]"

definition notExecutableMessage :: "string \<Rightarrow> string" where
  "notExecutableMessage claudePath =
    ''Claude Code not found or not executable at: '' @ claudePath @
    ''. Please check your CLAUDE_CODE_COMMAND environment variable.''"

definition printArgs :: "string list \<Rightarrow> string list" where
  "printArgs as = (if ''-p'' \<notin> set as \<and> ''--print'' \<notin> set as then ''-p'' # as else as)"

definition tempFileName :: "world \<Rightarrow> string" where
  "tempFileName w = join w [tmpdir w, ''claude-prompt-'' @ showNat (now w) @ ''.txt'']"

text \<open>\<open>writeFileSync\<close> on a path it may write: the file holds the data; an existing file keeps its mode.\<close>

definition writeFile :: "world \<Rightarrow> string \<Rightarrow> string \<Rightarrow> world" where
  "writeFile w p d =
    w\<lparr>files := (files w)(p \<mapsto>
        (case files w p of
           None \<Rightarrow> \<lparr>file_content = d, readable = True, executable_bit = False\<rparr>
         | Some f \<Rightarrow> f\<lparr>file_content := d\<rparr>))\<rparr>"

text \<open>
  \<open>unlinkSync\<close> inside \<open>try { } catch (e) { }\<close>: the file is removed when it exists and may be
  removed; otherwise the call throws, the handler drops the error, and nothing changes.
\<close>

definition unlinkQuietly :: "world \<Rightarrow> string \<Rightarrow> world" where
  "unlinkQuietly w p =
    (if existsSync w p \<and> can_unlink w p then w\<lparr>files := (files w)(p := None)\<rparr> else w)"

text \<open>The \<open>finally\<close> block: \<open>if (tempFile)\<close> guards the removal.\<close>

definition cleanup :: "world \<Rightarrow> string \<Rightarrow> world" where
  "cleanup w tempFile = (if tempFile \<noteq> [] then unlinkQuietly w tempFile else w)"

text \<open>
  The observable steps of one invocation, in program order. \<open>Returned\<close> is the moment the
  invocation completes: its promise has the given outcome.
\<close>

datatype effect =
    WriteFile string
  | Spawn string "string list"
  | Unlink string
  | Returned "js_error + string"

record exec_result =
  outcome :: "(js_error + string) option"
  final_world :: world
  final_inst :: provider
  trace :: "effect list"

definition completion :: "(js_error + string) option \<Rightarrow> effect list" where
  "completion r = (case r of None \<Rightarrow> [] | Some x \<Rightarrow> [Returned x])"

definition cleanupTrace :: "string \<Rightarrow> effect list" where
  "cleanupTrace tempFile = (if tempFile \<noteq> [] then [Unlink tempFile] else [])"

text \<open>
  The rewriting of the prompt in file-reference mode (two regular-expression operations on the
  prompt) is the parameter \<open>fileReference\<close>; it decides only what is written to the temporary file.

  The body follows the source: the exports are merged, the command is resolved, and inside \<open>try\<close>
  the method throws when no command was resolved, checks the executable, assigns \<open>tempFile\<close>,
  writes the prompt and creates the promise, whose executor spawns the child. The method returns
  that promise without awaiting it, so the \<open>finally\<close> block runs as soon as the promise is
  created, or the body has thrown: before any event of the child is handled.
\<close>

definition executeClaudeCode ::
  "(string \<Rightarrow> string) \<Rightarrow> provider \<Rightarrow> world \<Rightarrow> string \<Rightarrow> params \<Rightarrow> child_event list \<Rightarrow> exec_result" where
  "executeClaudeCode fileReference inst w input options evs =
    (case getRCConfig inst w of
       (rc, inst1) \<Rightarrow>
         (let w1 = (case rc of None \<Rightarrow> w
                    | Some c \<Rightarrow> w\<lparr>env := mergeEnvironment (environment c) (env w)\<rparr>)
          in case getClaudeCommandParsed inst1 w1 options of
               (None, inst2) \<Rightarrow>
                 \<lparr>outcome = Some (Inl (Error notFoundMessage)), final_world = w1, final_inst = inst2,
                  trace = [Returned (Inl (Error notFoundMessage))]\<rparr>
             | (Some parsedCommand, inst2) \<Rightarrow>
                 (let actualInput = (if env w1 ''CLAUDE_CODE_USE_FILE_REFERENCE'' = Some ''true''
                                     then fileReference input else input);
                      claudePath = executable parsedCommand;
                      as = printArgs (args parsedCommand)
                  in if \<not> accessSync_X w1 claudePath then
                       \<lparr>outcome = Some (Inl (Error (notExecutableMessage claudePath))),
                        final_world = w1, final_inst = inst2,
                        trace = [Returned (Inl (Error (notExecutableMessage claudePath)))]\<rparr>
                     else
                       (let tempFile = tempFileName w1
                        in if \<not> can_write w1 tempFile then
                             \<lparr>outcome = Some (Inl (RuntimeError ''writeFileSync'')),
                              final_world = cleanup w1 tempFile, final_inst = inst2,
                              trace = [WriteFile tempFile] @ cleanupTrace tempFile
                                        @ [Returned (Inl (RuntimeError ''writeFileSync''))]\<rparr>
                           else
                             (let w2 = writeFile w1 tempFile actualInput;
                                  r = settled (runChild evs)
                              in \<lparr>outcome = r, final_world = cleanup w2 tempFile,
                                  final_inst = inst2,
                                  trace = [WriteFile tempFile, Spawn claudePath as]
                                            @ cleanupTrace tempFile @ completion r\<rparr>)))))"

section \<open>The public methods: \<open>generateText\<close> and \<open>generateObject\<close>\<close>

text \<open>
  \<open>handleError\<close> belongs to the base class of the provider, which is not part of the sources at
  hand; it is the parameter \<open>handleError\<close>, the error it throws for an operation and an error.
  \<open>JSON.parse\<close> is the parameter \<open>JSON_parse\<close>: the parsed value, or the message of the
  \<open>SyntaxError\<close> it throws.
\<close>

record message =
  role :: string
  content :: string

definition formatMessage :: "message \<Rightarrow> string" where
  "formatMessage msg =
    (if role msg = ''system'' then ''System: '' @ content msg
     else if role msg = ''user'' then ''Human: '' @ content msg
     else if role msg = ''assistant'' then ''Assistant: '' @ content msg
     else [])"

fun joinBlank :: "string list \<Rightarrow> string" where
  "joinBlank [] = []"
| "joinBlank [x] = x"
| "joinBlank (x # y # ys) = x @ [newline, newline] @ joinBlank (y # ys)"

definition formatPrompt :: "message list \<Rightarrow> string" where
  "formatPrompt messages =
    (let prompt = joinBlank (map formatMessage messages)
     in if role (last messages) \<noteq> ''assistant''
        then prompt @ [newline, newline] @ ''Assistant:'' else prompt)"

text \<open>The outcome of a method: \<open>None\<close> while its promise is not settled.\<close>

definition generateText ::
  "(string \<Rightarrow> string) \<Rightarrow> (string \<Rightarrow> js_error \<Rightarrow> js_error) \<Rightarrow> provider \<Rightarrow> world \<Rightarrow>
     message list \<Rightarrow> string option \<Rightarrow> child_event list \<Rightarrow> (js_error + string) option" where
  "generateText fileReference handleError inst w messages mId evs =
    (if messages = []
     then Some (Inl (handleError ''text generation''
                       (Error ''Messages array is required for text generation.'')))
     else (case outcome (executeClaudeCode fileReference inst w (formatPrompt messages)
                           \<lparr>claudeCodeCommand = None, modelId = mId\<rparr> evs) of
             None \<Rightarrow> None
           | Some (Inl e) \<Rightarrow> Some (Inl (handleError ''text generation'' e))
           | Some (Inr result) \<Rightarrow> Some (Inr result)))"

subsection \<open>From the generated text to the JSON text\<close>

text \<open>
  \<open>s.replace(/PAT\s*/g, '')\<close> for a literal, non-empty \<open>PAT\<close>: from left to right, each
  occurrence goes together with all the white space behind it, and the search goes on behind that.
\<close>

function removeWithSpace :: "string \<Rightarrow> string \<Rightarrow> string" where
  "removeWithSpace pat [] = []"
| "removeWithSpace pat (c # s) =
    (if pat \<noteq> [] \<and> startsWith (c # s) pat
     then removeWithSpace pat (dropWhile isWhitespace (drop (length pat) (c # s)))
     else c # removeWithSpace pat s)"
  by pat_completeness auto
termination
proof (relation "measure (\<lambda>(pat, s). length s)")
  show "wf (measure (\<lambda>(pat, s). length s))" by simp
next
  fix pat :: string and c :: char and s :: string
  assume "pat \<noteq> [] \<and> startsWith (c # s) pat"
  then have "length (drop (length pat) (c # s)) < length (c # s)"
    by (cases pat) auto
  moreover have "length (dropWhile isWhitespace (drop (length pat) (c # s)))
      \<le> length (drop (length pat) (c # s))"
    by (rule length_dropWhile_le)
  ultimately show "((pat, dropWhile isWhitespace (drop (length pat) (c # s))), (pat, c # s))
      \<in> measure (\<lambda>(pat, s). length s)"
    by simp
next
  fix pat :: string and c :: char and s :: string
  show "((pat, s), (pat, c # s)) \<in> measure (\<lambda>(pat, s). length s)"
    by simp
qed

definition lastIndexOf :: "string \<Rightarrow> char \<Rightarrow> nat option" where
  "lastIndexOf s c = (case indexOf (rev s) c of None \<Rightarrow> None | Some i \<Rightarrow> Some (length s - 1 - i))"

text \<open>
  \<open>String.prototype.substring\<close>: both indices are cut down to the length, and they are swapped
  when the first is the larger one.
\<close>

definition substring :: "string \<Rightarrow> nat \<Rightarrow> nat \<Rightarrow> string" where
  "substring s a b =
    (let a' = min a (length s); b' = min b (length s)
     in take (max a' b' - min a' b') (drop (min a' b') s))"

definition jsonTextOf :: "string \<Rightarrow> string" where
  "jsonTextOf text =
    (let jsonText = removeWithSpace ''```'' (removeWithSpace ''```json'' (trim text))
     in case (indexOf jsonText (CHR ''{''), lastIndexOf jsonText (CHR ''}'')) of
          (Some firstBrace, Some lastBrace) \<Rightarrow> substring jsonText firstBrace (lastBrace + 1)
        | _ \<Rightarrow> jsonText)"

definition parseFailureMessage :: "string \<Rightarrow> string" where
  "parseFailureMessage m = ''Failed to parse JSON from Claude Code response: '' @ m"

text \<open>The inner \<open>try\<close> of \<open>generateObject\<close>, from the text that \<open>generateText\<close> returned.\<close>

definition parseResponse :: "(string \<Rightarrow> string + 'j) \<Rightarrow> string \<Rightarrow> js_error + 'j" where
  "parseResponse JSON_parse text =
    (case JSON_parse (jsonTextOf text) of
       Inl m \<Rightarrow> Inl (Error (parseFailureMessage m))
     | Inr parsedObject \<Rightarrow> Inr parsedObject)"

definition jsonInstruction :: "string \<Rightarrow> string" where
  "jsonInstruction objectName =
    [newline, newline] @
    ''IMPORTANT: Your response MUST be valid JSON that matches this structure: '' @ objectName @
    [newline, newline] @
    ''Respond ONLY with the JSON object, no explanation, no markdown, just the raw JSON.''"

definition modifyMessages :: "string \<Rightarrow> message list \<Rightarrow> message list" where
  "modifyMessages objectName messages =
    (if messages \<noteq> [] \<and> role (last messages) = ''user''
     then butlast messages
            @ [(last messages)\<lparr>content := content (last messages) @ jsonInstruction objectName\<rparr>]
     else messages)"

definition generateObject ::
  "(string \<Rightarrow> string) \<Rightarrow> (string \<Rightarrow> js_error \<Rightarrow> js_error) \<Rightarrow> (string \<Rightarrow> string + 'j) \<Rightarrow>
     provider \<Rightarrow> world \<Rightarrow> message list \<Rightarrow> string \<Rightarrow> string option \<Rightarrow> child_event list \<Rightarrow>
     (js_error + 'j) option" where
  "generateObject fileReference handleError JSON_parse inst w messages objectName mId evs =
    (case generateText fileReference handleError inst w (modifyMessages objectName messages) mId evs of
       None \<Rightarrow> None
     | Some (Inl e) \<Rightarrow> Some (Inl (handleError ''object generation'' e))
     | Some (Inr text) \<Rightarrow>
         (case parseResponse JSON_parse text of
            Inl e \<Rightarrow> Some (Inl (handleError ''object generation'' e))
          | Inr parsedObject \<Rightarrow> Some (Inr parsedObject)))"

section \<open>The variables of one resolution\<close>

text \<open>
  Names for the local variables of the resolution methods, as functions of the instance, the
  machine and the parameters: \<open>rcConfig\<close>, \<open>baseCommand\<close> before and after \<open>applyAliases\<close>,
  the \<open>args\<close> of the parsed base command, \<open>modelToUse\<close> and \<open>modelArgs\<close>.
\<close>

definition loadedConfig :: "provider \<Rightarrow> world \<Rightarrow> rc_config option" where
  "loadedConfig inst w = fst (getRCConfig inst w)"

definition baseCommandOf :: "provider \<Rightarrow> world \<Rightarrow> params \<Rightarrow> string option" where
  "baseCommandOf inst w p =
    fst (selectBaseCommand p w (loadedConfig inst w) (snd (getRCConfig inst w)))"

definition expandedCommand :: "provider \<Rightarrow> world \<Rightarrow> params \<Rightarrow> string" where
  "expandedCommand inst w p = aliasedCommand (loadedConfig inst w) (the (baseCommandOf inst w p))"

definition baseArgs :: "provider \<Rightarrow> world \<Rightarrow> params \<Rightarrow> string list" where
  "baseArgs inst w p = args (parseCommand (expandedCommand inst w p))"

definition modelToUseOf :: "provider \<Rightarrow> world \<Rightarrow> params \<Rightarrow> string option" where
  "modelToUseOf inst w p = fst (selectModel p w (loadedConfig inst w))"

definition modelArgsOf :: "provider \<Rightarrow> world \<Rightarrow> params \<Rightarrow> string option" where
  "modelArgsOf inst w p = snd (selectModel p w (loadedConfig inst w))"


text \<open>
  The two sources of a base command that lie outside the call and the environment: the command
  variable of the RC file that \<open>loadClaudeRC\<close> finds, and what detection finds when nothing is
  cached.
\<close>

definition rcFileCommand :: "world \<Rightarrow> string option" where
  "rcFileCommand w =
    (case loadClaudeRC w of None \<Rightarrow> None | Some rcData \<Rightarrow> map_of (variables rcData) ''command'')"

definition autoDetected :: "world \<Rightarrow> string option" where
  "autoDetected w =
    (case whichClaude w of Some result \<Rightarrow> Some result | None \<Rightarrow> firstExecutable w (commonPaths w))"

section \<open>Well-formed instances\<close>

text \<open>
  Every alias that \<open>parseAlias\<close> stores has a name and a value that are not empty. An instance is
  well formed when the aliases of its cached configuration are of that kind; the new instance is,
  and the methods keep it so. In the same way the tokenizer never stores an empty part.
\<close>

definition aliases_ok :: "js_object \<Rightarrow> bool" where
  "aliases_ok als = (map_of als [] = None \<and> (\<forall>n. map_of als n \<noteq> Some []))"

definition config_ok :: "rc_config option \<Rightarrow> bool" where
  "config_ok rc = (case rc of None \<Rightarrow> True | Some c \<Rightarrow> aliases_ok (rawAliases c))"

definition provider_ok :: "provider \<Rightarrow> bool" where
  "provider_ok inst = config_ok (rcConfig inst)"

definition parts_ok :: "pc_state \<Rightarrow> bool" where
  "parts_ok st = ([] \<notin> set (parts st))"


text \<open>
  The scanner state after a prefix \<open>pre\<close> of an input \<open>pre @ suf\<close>: the loop run over \<open>pre\<close>
  alone, with the look-ahead reaching into \<open>suf\<close>.
\<close>

fun pc_upto :: "pc_state \<Rightarrow> string \<Rightarrow> string \<Rightarrow> pc_state" where
  "pc_upto st [] suf = st"
| "pc_upto st (c # pre) suf = pc_upto (pc_step st c (pre @ suf)) pre suf"

section \<open>The output collected before the close event\<close>

text \<open>
  The chunks that the two \<open>data\<close> handlers have appended to \<open>stdout\<close> and \<open>stderr\<close> over a
  list of events, and the events that are such chunks.
\<close>

fun stdoutOf :: "child_event list \<Rightarrow> string" where
  "stdoutOf [] = []"
| "stdoutOf (StdoutData d # evs) = d @ stdoutOf evs"
| "stdoutOf (ev # evs) = stdoutOf evs"

fun stderrOf :: "child_event list \<Rightarrow> string" where
  "stderrOf [] = []"
| "stderrOf (StderrData d # evs) = d @ stderrOf evs"
| "stderrOf (ev # evs) = stderrOf evs"

definition isData :: "child_event \<Rightarrow> bool" where
  "isData ev = (case ev of StdoutData d \<Rightarrow> True | StderrData d \<Rightarrow> True | _ \<Rightarrow> False)"


section \<open>The JSON text, described by what it contains\<close>

text \<open>
  \<open>strippedText\<close> is the text after the trimming and the two replacements. \<open>firstToLast\<close>
  cuts a text down to the part from its first opening brace through its last closing brace, without
  any index; \<open>closesAfterOpening\<close> says that a closing brace occurs behind the first opening
  brace. When both braces occur but every closing brace stands before the first opening brace,
  \<open>lastToFirst\<close> is the part strictly between the last closing brace and the first opening
  brace. \<open>amendedJsonText\<close> puts them together: it is the description that the source's
  index arithmetic is compared with.
\<close>

definition strippedText :: "string \<Rightarrow> string" where
  "strippedText text = removeWithSpace ''```'' (removeWithSpace ''```json'' (trim text))"

definition firstToLast :: "string \<Rightarrow> string" where
  "firstToLast s =
    rev (dropWhile (\<lambda>c. c \<noteq> CHR ''}'') (rev (dropWhile (\<lambda>c. c \<noteq> CHR ''{'') s)))"

definition closesAfterOpening :: "string \<Rightarrow> bool" where
  "closesAfterOpening s = (CHR ''}'' \<in> set (dropWhile (\<lambda>c. c \<noteq> CHR ''{'') s))"

definition lastToFirst :: "string \<Rightarrow> string" where
  "lastToFirst s =
    takeWhile (\<lambda>c. c \<noteq> CHR ''{'') (rev (takeWhile (\<lambda>c. c \<noteq> CHR ''}'') (rev s)))"

definition amendedJsonText :: "string \<Rightarrow> string" where
  "amendedJsonText text =
    (let t = strippedText text
     in if CHR ''{'' \<in> set t \<and> CHR ''}'' \<in> set t
        then if closesAfterOpening t then firstToLast t else lastToFirst t
        else t)"


text \<open>
  The description in the words of the specification: all \<open>```json\<close> and all \<open>```\<close> markers
  are deleted, the markers alone, and the part from the first opening brace through the last closing
  brace is taken when both occur.
\<close>

function deleteAll :: "string \<Rightarrow> string \<Rightarrow> string" where
  "deleteAll pat [] = []"
| "deleteAll pat (c # s) =
    (if pat \<noteq> [] \<and> startsWith (c # s) pat
     then deleteAll pat (drop (length pat) (c # s))
     else c # deleteAll pat s)"
  by pat_completeness auto
termination
  by (relation "measure (\<lambda>(pat, s). length s)") (auto simp: neq_Nil_conv)

definition claimedJsonText :: "string \<Rightarrow> string" where
  "claimedJsonText text =
    (let t = deleteAll ''```'' (deleteAll ''```json'' text)
     in if CHR ''{'' \<in> set t \<and> CHR ''}'' \<in> set t then firstToLast t else t)"


section \<open>A fragment of \<open>JSON.parse\<close>\<close>

text \<open>
  The properties of \<open>generateObject\<close> hold for every parser. To run the examples, here is
  \<open>JSON.parse\<close> on a fragment of JSON: white space, objects, arrays, the three literals,
  integers without fraction and exponent, and strings without escapes and control characters.
  A repeated key keeps its first position and its last value, as in a JavaScript object. Outside
  the fragment the function reports a syntax error; the examples stay inside. The recursion runs
  on a counter that starts above twice the length of the input.
\<close>

datatype json =
    JNull
  | JBool bool
  | JNumber int
  | JString string
  | JArray "json list"
  | JObject "(string \<times> json) list"

definition isJsonSpace :: "char \<Rightarrow> bool" where
  "isJsonSpace c = (c = CHR 0x20 \<or> c = CHR 0x09 \<or> c = CHR 0x0A \<or> c = CHR 0x0D)"

definition isDigit :: "char \<Rightarrow> bool" where
  "isDigit c = (48 \<le> (of_char c :: nat) \<and> (of_char c :: nat) \<le> 57)"

definition digitsValue :: "string \<Rightarrow> nat" where
  "digitsValue ds = foldl (\<lambda>n c. 10 * n + (of_char c - 48)) 0 ds"

definition parseStringLit :: "string \<Rightarrow> (string \<times> string) option" where
  "parseStringLit s =
    (case s of
       [] \<Rightarrow> None
     | c # r \<Rightarrow>
         (let body = takeWhile (\<lambda>x. x \<noteq> dquote) r;
              rest = dropWhile (\<lambda>x. x \<noteq> dquote) r
          in if c \<noteq> dquote \<or> rest = [] \<or> bslash \<in> set body
                \<or> list_ex (\<lambda>x. (of_char x :: nat) < 32) body
             then None else Some (body, tl rest)))"

definition parseNumber :: "string \<Rightarrow> (json \<times> string) option" where
  "parseNumber s =
    (let negative = (s \<noteq> [] \<and> hd s = CHR ''-'');
         r = (if negative then tl s else s);
         ds = takeWhile isDigit r;
         rest = dropWhile isDigit r
     in if ds = [] \<or> (length ds > 1 \<and> hd ds = CHR ''0'')
           \<or> (rest \<noteq> [] \<and> (hd rest = CHR ''.'' \<or> hd rest = CHR ''e'' \<or> hd rest = CHR ''E''))
        then None
        else Some (JNumber (if negative then - int (digitsValue ds) else int (digitsValue ds)), rest))"

fun parseValue :: "nat \<Rightarrow> string \<Rightarrow> (json \<times> string) option"
  and parseElements :: "nat \<Rightarrow> json list \<Rightarrow> string \<Rightarrow> (json \<times> string) option"
  and parseMembers :: "nat \<Rightarrow> (string \<times> json) list \<Rightarrow> string \<Rightarrow> (json \<times> string) option" where
  "parseValue 0 s = None"
| "parseValue (Suc n) s =
    (case dropWhile isJsonSpace s of
       [] \<Rightarrow> None
     | c # r \<Rightarrow>
         if c = CHR ''{'' then
           (case dropWhile isJsonSpace r of
              [] \<Rightarrow> None
            | d # r' \<Rightarrow> if d = CHR ''}'' then Some (JObject [], r') else parseMembers n [] r)
         else if c = CHR ''['' then
           (case dropWhile isJsonSpace r of
              [] \<Rightarrow> None
            | d # r' \<Rightarrow> if d = CHR '']'' then Some (JArray [], r') else parseElements n [] r)
         else if c = dquote then
           (case parseStringLit (c # r) of None \<Rightarrow> None | Some (b, r') \<Rightarrow> Some (JString b, r'))
         else if startsWith (c # r) ''true'' then Some (JBool True, drop 4 (c # r))
         else if startsWith (c # r) ''false'' then Some (JBool False, drop 5 (c # r))
         else if startsWith (c # r) ''null'' then Some (JNull, drop 4 (c # r))
         else parseNumber (c # r))"
| "parseElements 0 acc s = None"
| "parseElements (Suc n) acc s =
    (case parseValue n s of
       None \<Rightarrow> None
     | Some (v, r) \<Rightarrow>
         (case dropWhile isJsonSpace r of
            [] \<Rightarrow> None
          | d # r' \<Rightarrow> if d = CHR '','' then parseElements n (acc @ [v]) r'
                      else if d = CHR '']'' then Some (JArray (acc @ [v]), r')
                      else None))"
| "parseMembers 0 acc s = None"
| "parseMembers (Suc n) acc s =
    (case parseStringLit (dropWhile isJsonSpace s) of
       None \<Rightarrow> None
     | Some (k, r) \<Rightarrow>
         (case dropWhile isJsonSpace r of
            [] \<Rightarrow> None
          | d # r' \<Rightarrow>
              if d \<noteq> CHR '':'' then None
              else (case parseValue n r' of
                      None \<Rightarrow> None
                    | Some (v, r'') \<Rightarrow>
                        (case dropWhile isJsonSpace r'' of
                           [] \<Rightarrow> None
                         | e # r3 \<Rightarrow>
                             if e = CHR '','' then parseMembers n (AList.update k v acc) r3
                             else if e = CHR ''}'' then Some (JObject (AList.update k v acc), r3)
                             else None))))"

definition JSON_parse_fragment :: "string \<Rightarrow> string + json" where
  "JSON_parse_fragment s =
    (case parseValue (2 * length s + 2) s of
       None \<Rightarrow> Inl ''SyntaxError''
     | Some (v, r) \<Rightarrow> if dropWhile isJsonSpace r = [] then Inr v else Inl ''SyntaxError'')"


section \<open>Example machines\<close>

text \<open>
  A Linux machine without RC file, whose \<open>which\<close> finds nothing; \<open>path.join\<close> on components
  that need no normalisation.
\<close>

fun joinPath :: "string list \<Rightarrow> string" where
  "joinPath [] = ''.''"
| "joinPath [x] = x"
| "joinPath (x # y # ys) = x @ ''/'' @ joinPath (y # ys)"

definition example_world :: world where
  "example_world =
    \<lparr>env = Map.empty, files = Map.empty, cwd = ''/work'', homedir = ''/home/user'',
     tmpdir = ''/tmp'', platform = ''linux'', execSync = (\<lambda>_. None), join = joinPath,
     now = 1700000000000, can_write = (\<lambda>_. True), can_unlink = (\<lambda>_. True)\<rparr>"

definition no_params :: params where
  "no_params = \<lparr>claudeCodeCommand = None, modelId = None\<rparr>"


text \<open>The scenario of the specification: the command carries a model flag, and a model is set.\<close>

definition world_with_model_flag :: world where
  "world_with_model_flag =
    example_world\<lparr>env := [''CLAUDE_CODE_COMMAND'' \<mapsto> ''claude --model claude-3-5-sonnet'',
                            ''CLAUDE_CODE_MODEL'' \<mapsto> ''opus'']\<rparr>"


text \<open>
  A machine with an RC file in the working directory, which sets a command, an alias and an export;
  the configuration that an instance loads from it, up to the command; and variants of the
  environment.
\<close>

definition rc_text :: string where
  "rc_text = ''command=/rc/claude'' @ [newline] @
             ''alias fast='' @ [dquote] @ ''--model haiku --verbose'' @ [dquote] @ [newline] @
             ''export FOO=bar''"

definition rc_world :: world where
  "rc_world = example_world\<lparr>files :=
     [''/work/.clauderc'' \<mapsto> \<lparr>file_content = rc_text, readable = True, executable_bit = False\<rparr>]\<rparr>"

definition fast_config :: "string option \<Rightarrow> rc_config" where
  "fast_config c = \<lparr>command = c, model = None,
     cfg_aliases = [(''fast'', ''--model haiku --verbose'')],
     environment = [(''FOO'', ''bar'')],
     rawAliases = [(''fast'', ''--model haiku --verbose'')]\<rparr>"


definition rc_world_flag :: world where
  "rc_world_flag = rc_world\<lparr>env := [''CLAUDE_CODE_COMMAND'' \<mapsto> ''claude --model sonnet -p'']\<rparr>"

definition env_command_world :: world where
  "env_command_world = rc_world\<lparr>env := [''CLAUDE_CODE_COMMAND'' \<mapsto> ''/env/claude'']\<rparr>"

definition empty_foo_world :: world where
  "empty_foo_world = rc_world\<lparr>env := [''FOO'' \<mapsto> []]\<rparr>"


text \<open>
  Two machines on which an RC alias meets the model flag of the command. Both RC files set the
  model \<open>sonnet\<close>, and the environment sets the command \<open>claude --model opus\<close>. The first
  file defines the alias \<open>opus\<close> with the value \<open>--model opus\<close>; the second one gives the
  flag itself an alias, \<open>-m\<close>. \<open>alias_config\<close> is the configuration that an instance loads
  on either machine, up to the aliases.
\<close>

definition opus_alias_text :: string where
  "opus_alias_text = ''model=sonnet'' @ [newline] @
             ''alias opus='' @ [dquote] @ ''--model opus'' @ [dquote]"

definition opus_alias_world :: world where
  "opus_alias_world = example_world\<lparr>
     env := [''CLAUDE_CODE_COMMAND'' \<mapsto> ''claude --model opus''],
     files := [''/work/.clauderc'' \<mapsto>
                 \<lparr>file_content = opus_alias_text, readable = True, executable_bit = False\<rparr>]\<rparr>"

definition flag_alias_text :: string where
  "flag_alias_text = ''model=sonnet'' @ [newline] @ ''alias --model=-m''"

definition flag_alias_world :: world where
  "flag_alias_world = example_world\<lparr>
     env := [''CLAUDE_CODE_COMMAND'' \<mapsto> ''claude --model opus''],
     files := [''/work/.clauderc'' \<mapsto>
                 \<lparr>file_content = flag_alias_text, readable = True, executable_bit = False\<rparr>]\<rparr>"

definition alias_config :: "js_object \<Rightarrow> rc_config" where
  "alias_config als = \<lparr>command = Some ''claude --model opus'', model = Some ''sonnet'',
     cfg_aliases = als, environment = [], rawAliases = als\<rparr>"


text \<open>
  The command of the test \<open>should handle escaped spaces\<close>, and the environment of the test
  \<open>should handle edge case where model flag is last argument\<close>.
\<close>

definition escaped_spaces_command :: string where
  "escaped_spaces_command = ''/path'' @ [bslash] @ '' with'' @ [bslash] @ '' spaces/claude --test''"

definition world_with_dangling_flag :: world where
  "world_with_dangling_flag =
    example_world\<lparr>env := [''CLAUDE_CODE_COMMAND'' \<mapsto> ''claude --model'',
                            ''CLAUDE_CODE_MODEL'' \<mapsto> ''opus'']\<rparr>"

text \<open>Explicit commands: a single space, and a command whose argument repeats the executable.\<close>

definition blank_params :: params where
  "blank_params = \<lparr>claudeCodeCommand = Some '' '', modelId = None\<rparr>"

definition twice_params :: params where
  "twice_params = \<lparr>claudeCodeCommand = Some ''claude claude'', modelId = None\<rparr>"


text \<open>A machine on which the command resolves to an executable file, and one invocation on it.\<close>

definition exec_world :: world where
  "exec_world = example_world
     \<lparr>env := [''CLAUDE_CODE_COMMAND'' \<mapsto> ''/usr/bin/claude''],
      files := [''/usr/bin/claude'' \<mapsto>
                  \<lparr>file_content = [], readable = True, executable_bit = True\<rparr>]\<rparr>"

definition run_exec_world :: "child_event list \<Rightarrow> exec_result" where
  "run_exec_world evs = executeClaudeCode (\<lambda>x. x) new_provider exec_world ''hi'' no_params evs"


text \<open>
  Two generated texts: a fenced JSON object inside prose, and an object with a fence marker and a
  space inside a string. A request of one user message, and the \<open>handleError\<close> of the test
  suites, which throws the error it is given.
\<close>

definition fenced_text :: string where
  "fenced_text = ''Here is the JSON:'' @ [newline] @ ''```json'' @ [newline]
     @ ''{'' @ [dquote] @ ''a'' @ [dquote] @ '':1}'' @ [newline] @ ''```'' @ [newline]
     @ ''Hope it helps''"

definition spaced_fence_text :: string where
  "spaced_fence_text = ''{'' @ [dquote] @ ''t'' @ [dquote] @ '':'' @ [dquote] @ ''a``` b'' @ [dquote] @ ''}''"

definition user_message :: message where
  "user_message = \<lparr>role = ''user'', content = ''Generate a profile''\<rparr>"

definition rethrow :: "string \<Rightarrow> js_error \<Rightarrow> js_error" where
  "rethrow operation e = e"


section \<open>Properties of the tokenizer\<close>


lemma pc_step_parts_ok: "parts_ok st \<Longrightarrow> parts_ok (pc_step st c rest)"
  by (simp add: parts_ok_def pc_step_def)

lemma pc_loop_parts_ok: "parts_ok st \<Longrightarrow> parts_ok (pc_loop st xs)"
  by (induction xs arbitrary: st) (simp_all add: pc_step_parts_ok)

lemma tokens_nonempty: "[] \<notin> set (tokens s)"
proof -
  have "parts_ok (pc_loop pc_init s)"
    by (rule pc_loop_parts_ok) (simp add: parts_ok_def pc_init_def)
  then show ?thesis
    by (simp add: tokens_def pc_finish_def parts_ok_def)
qed




lemmas tokenizer_defs = parseCommand_def tokens_def pc_init_def pc_finish_def pc_step_def Let_def

text \<open>
  Every position of every input is reached in some scanner state: the run over an input is the
  run over any of its suffixes, from the state after the prefix before it.
\<close>

lemma pc_loop_split: "pc_loop st (pre @ suf) = pc_loop (pc_upto st pre suf) suf"
  by (induction pre arbitrary: st) simp_all

lemma tokens_split: "tokens (pre @ suf) = pc_finish (pc_loop (pc_upto pc_init pre suf) suf)"
  by (simp add: tokens_def pc_loop_split)

text \<open>
  C4. At a backslash that is not itself escaped (\<open>escapeNext\<close> is off), in any scanner state and
  before any remaining input: followed by a double quote, a single quote or a backslash, the
  backslash is dropped and the following character joins the current token; followed by anything
  else, or by nothing, the backslash itself joins the current token; and outside quotes a backslash
  before a space ends up as the last character of the token that the space then closes.
\<close>

theorem parseCommand_backslash:
  assumes "\<not> escapeNext st"
  shows "(q = dquote \<or> q = squote \<or> q = bslash \<longrightarrow>
            pc_loop st (bslash # q # rest) = pc_loop (st\<lparr>current := current st @ [q]\<rparr>) rest)
       \<and> (rest = [] \<or> \<not> (hd rest = dquote \<or> hd rest = squote \<or> hd rest = bslash) \<longrightarrow>
            pc_loop st (bslash # rest) = pc_loop (st\<lparr>current := current st @ [bslash]\<rparr>) rest)
       \<and> (\<not> inQuote st \<longrightarrow>
            pc_loop st (bslash # space # rest)
              = pc_loop (st\<lparr>parts := parts st @ [current st @ [bslash]], current := []\<rparr>) rest)"
proof -
  have upd: "\<And>cur. st\<lparr>current := cur, escapeNext := False\<rparr> = st\<lparr>current := cur\<rparr>"
    using assms by simp
  show ?thesis
    using assms by (auto simp: pc_step_def upd)
qed

theorem parseCommand_backslash_witness:
  "\<not> escapeNext pc_init
   \<and> tokens (bslash # dquote # ''a b'') = [dquote # ''a'', ''b'']
   \<and> tokens (bslash # ''a b'') = [bslash # ''a'', ''b'']
   \<and> tokens (bslash # space # ''a b'') = [[bslash], ''a'', ''b'']
   \<and> parseCommand escaped_spaces_command
       = \<lparr>executable = ''/path'' @ [bslash],
          args = [''with'' @ [bslash], ''spaces/claude'', ''--test'']\<rparr>"
  using parseCommand_backslash [of pc_init dquote "''a b''"]
  by (simp add: tokenizer_defs escaped_spaces_command_def)

section \<open>Properties of command resolution\<close>

lemma someIndexed_iff:
  "someIndexed P xs i = (\<exists>j < length xs. P (xs ! j) (i + j))"
proof (induction xs arbitrary: i)
  case Nil
  show ?case by simp
next
  case (Cons x xs)
  show ?case
    apply (simp add: Cons.IH)
    apply (rule iffI)
     apply (erule disjE)
      apply (rule exI[of _ 0], simp)
     apply (erule exE)
    subgoal for j by (rule exI[of _ "Suc j"]) simp
    apply (erule exE)
    subgoal for j by (cases j) auto
    done
qed

lemma hasModelFlag_iff: "hasModelFlag as = (''--model'' \<in> set (butlast as))"
proof -
  have "hasModelFlag as = (\<exists>j < length as. as ! j = ''--model'' \<and> Suc j < length as)"
    by (auto simp: hasModelFlag_def someIndexed_iff)
  also have "\<dots> = (\<exists>j < length (butlast as). butlast as ! j = ''--model'')"
  proof
    assume "\<exists>j < length as. as ! j = ''--model'' \<and> Suc j < length as"
    then obtain j where j: "as ! j = ''--model''" "Suc j < length as" by blast
    then have "j < length (butlast as)" by simp
    moreover from this j have "butlast as ! j = ''--model''" by (simp add: nth_butlast)
    ultimately show "\<exists>j < length (butlast as). butlast as ! j = ''--model''" by blast
  next
    assume "\<exists>j < length (butlast as). butlast as ! j = ''--model''"
    then obtain j where j: "j < length (butlast as)" "butlast as ! j = ''--model''" by blast
    then have "as ! j = ''--model''" by (simp add: nth_butlast)
    moreover from j have "Suc j < length as" by simp
    ultimately show "\<exists>j < length as. as ! j = ''--model'' \<and> Suc j < length as"
      using Suc_lessD by blast
  qed
  also have "\<dots> = (''--model'' \<in> set (butlast as))"
    by (auto simp: in_set_conv_nth)
  finally show ?thesis .
qed

lemma resolution_result:
  assumes "fst (getClaudeCommandParsed inst w p) = Some r"
  shows "truthy (baseCommandOf inst w p)"
    and "executable r = executable (parseCommand (expandedCommand inst w p))"
    and "args r = finalArgs (baseArgs inst w p) (modelToUseOf inst w p) (modelArgsOf inst w p)"
  using assms
  by (auto simp: getClaudeCommandParsed_def baseCommandOf_def expandedCommand_def baseArgs_def
      modelToUseOf_def modelArgsOf_def loadedConfig_def Let_def
      split: prod.splits if_splits)

lemma resolution_none:
  "fst (getClaudeCommandParsed inst w p) = None \<longleftrightarrow> \<not> truthy (baseCommandOf inst w p)"
  by (auto simp: getClaudeCommandParsed_def baseCommandOf_def loadedConfig_def Let_def
      split: prod.splits if_splits)

lemma resolveModelAlias_truthy: "resolveModelAlias n = Some m \<Longrightarrow> m \<noteq> []"
  by (auto simp: resolveModelAlias_def Let_def truthy_def split: if_splits option.splits)

lemma selectModel_cases:
  assumes "fst (selectModel p w rc) = Some m"
  shows "m \<noteq> [] \<and> snd (selectModel p w rc) = None"
  using assms
  by (auto simp: selectModel_def truthy_def dest: resolveModelAlias_truthy
      split: if_splits option.splits)

section \<open>The RC aliases are never empty\<close>

lemma parseAlias_ok: "aliases_ok als \<Longrightarrow> aliases_ok (parseAlias l als)"
  by (auto simp: parseAlias_def aliases_ok_def Let_def update_conv' split: option.splits)

lemma parseLine_ok: "aliases_ok (aliases c) \<Longrightarrow> aliases_ok (aliases (parseLine e l c))"
  by (simp add: parseLine_def parseAlias_ok)

lemma parseLines_ok: "aliases_ok (aliases c) \<Longrightarrow> aliases_ok (aliases (parseLines e c ls))"
proof (induction e c ls rule: parseLines.induct)
  case (1 e config)
  then show ?case by simp
next
  case (2 e config l ls)
  show ?case
  proof (cases "trim l = [] \<or> startsWith (trim l) ''#''")
    case True
    with 2 show ?thesis by (simp add: Let_def)
  next
    case False
    have "aliases_ok (aliases (parseLine e (fst (joinContinuations (trim l) ls)) config))"
      using "2.prems" by (rule parseLine_ok)
    with False "2.IH"(2) show ?thesis by (simp add: Let_def)
  qed
qed

lemma parseClaudeRC_ok: "aliases_ok (aliases (parseClaudeRC e c))"
  unfolding parseClaudeRC_def by (rule parseLines_ok) (simp add: aliases_ok_def)

lemma loadFirst_ok: "loadFirst w ps = Some rcd \<Longrightarrow> aliases_ok (aliases rcd)"
  by (induction ps) (auto simp: parseClaudeRC_ok split: if_splits option.splits)

lemma loadClaudeRC_ok: "loadClaudeRC w = Some rcd \<Longrightarrow> aliases_ok (aliases rcd)"
  unfolding loadClaudeRC_def by (rule loadFirst_ok)

lemma getRCConfig_ok:
  assumes "provider_ok inst"
  shows "config_ok (fst (getRCConfig inst w))" and "provider_ok (snd (getRCConfig inst w))"
  using assms
  by (auto simp: getRCConfig_def provider_ok_def config_ok_def Let_def dest: loadClaudeRC_ok
      split: option.splits)


lemma detectClaudeCommand_rcConfig: "rcConfig (snd (detectClaudeCommand inst w)) = rcConfig inst"
  by (simp add: detectClaudeCommand_def split: detected.splits option.splits)

lemma selectBaseCommand_rcConfig: "rcConfig (snd (selectBaseCommand p w rc inst)) = rcConfig inst"
  using detectClaudeCommand_rcConfig [of inst w]
  by (auto simp: selectBaseCommand_def split: prod.splits)

lemma getClaudeCommandParsed_ok:
  assumes "provider_ok inst"
  shows "provider_ok (snd (getClaudeCommandParsed inst w p))"
proof -
  have "rcConfig (snd (getClaudeCommandParsed inst w p)) = rcConfig (snd (getRCConfig inst w))"
    using selectBaseCommand_rcConfig [of p w "fst (getRCConfig inst w)" "snd (getRCConfig inst w)"]
    by (auto simp: getClaudeCommandParsed_def Let_def split: prod.splits)
  with getRCConfig_ok(2) [OF assms] show ?thesis
    by (simp add: provider_ok_def)
qed


lemma executeClaudeCode_ok:
  assumes "provider_ok inst"
  shows "provider_ok (final_inst (executeClaudeCode fr inst w input opts evs))"
proof -
  obtain rc inst1 where rc: "getRCConfig inst w = (rc, inst1)"
    by (cases "getRCConfig inst w")
  define w1 where "w1 = (case rc of None \<Rightarrow> w
      | Some c \<Rightarrow> w\<lparr>env := mergeEnvironment (environment c) (env w)\<rparr>)"
  have ok1: "provider_ok inst1"
    using getRCConfig_ok(2) [OF assms, of w] rc by simp
  have "final_inst (executeClaudeCode fr inst w input opts evs)
      = snd (getClaudeCommandParsed inst1 w1 opts)"
    by (simp add: executeClaudeCode_def rc w1_def [symmetric] Let_def
        split: prod.splits option.splits)
  with getClaudeCommandParsed_ok [OF ok1, of w1 opts] show ?thesis
    by simp
qed

section \<open>Evaluating the example machines\<close>

lemmas parser_defs = parseClaudeRC_def trim_def isWhitespace_def startsWith_def
  endsWith_def parseLine_def parseAlias_def parseExport_def parseVariable_def findUnquotedChar_def
  unquote_def braceMatch_def isWordChar_def envOrMatch_def Let_def

lemma rc_text_parsed:
  "parseClaudeRC e rc_text =
     \<lparr>variables = [(''command'', ''/rc/claude'')],
      aliases = [(''fast'', ''--model haiku --verbose'')],
      exports = [(''FOO'', ''bar'')], raw = [], rc_path = []\<rparr>"
  by (simp add: rc_text_def parser_defs)

lemma rc_world_loaded:
  "loadClaudeRC rc_world =
     Some \<lparr>variables = [(''command'', ''/rc/claude'')],
      aliases = [(''fast'', ''--model haiku --verbose'')],
      exports = [(''FOO'', ''bar'')], raw = [], rc_path = ''/work/.clauderc''\<rparr>"
  by (simp add: loadClaudeRC_def rc_world_def example_world_def existsSync_def readFileSync_def
      rc_text_parsed)

lemma rc_world_flag_loaded:
  "loadClaudeRC rc_world_flag = loadClaudeRC rc_world"
  by (simp add: loadClaudeRC_def rc_world_flag_def rc_world_def example_world_def existsSync_def
      readFileSync_def rc_text_parsed)

lemma env_command_world_loaded:
  "loadClaudeRC env_command_world = loadClaudeRC rc_world"
  by (simp add: loadClaudeRC_def env_command_world_def rc_world_def example_world_def existsSync_def
      readFileSync_def rc_text_parsed)

lemma env_rc_world_flag: "env rc_world_flag = [''CLAUDE_CODE_COMMAND'' \<mapsto> ''claude --model sonnet -p'']"
  by (simp add: rc_world_flag_def)

lemma env_rc_world: "env rc_world = Map.empty"
  by (simp add: rc_world_def example_world_def)

lemma env_env_command_world: "env env_command_world = [''CLAUDE_CODE_COMMAND'' \<mapsto> ''/env/claude'']"
  by (simp add: env_command_world_def)

lemma config_rc_world_flag:
  "getRCConfig new_provider rc_world_flag
     = (Some (fast_config (Some ''claude --model sonnet -p'')),
        \<lparr>detectedCommand = Undefined,
         rcConfig = Some (fast_config (Some ''claude --model sonnet -p'')),
         rcConfigLoaded = True\<rparr>)"
  by (simp add: getRCConfig_def new_provider_def rc_world_flag_loaded rc_world_loaded
      getEffectiveConfig_def truthy_def env_rc_world_flag fast_config_def Let_def)






lemma config_rc_world:
  "getRCConfig new_provider rc_world
     = (Some (fast_config (Some ''/rc/claude'')),
        \<lparr>detectedCommand = Undefined,
         rcConfig = Some (fast_config (Some ''/rc/claude'')),
         rcConfigLoaded = True\<rparr>)"
  by (simp add: getRCConfig_def new_provider_def rc_world_loaded
      getEffectiveConfig_def truthy_def env_rc_world fast_config_def Let_def)

lemma config_env_command_world:
  "getRCConfig new_provider env_command_world
     = (Some (fast_config (Some ''/env/claude'')),
        \<lparr>detectedCommand = Undefined,
         rcConfig = Some (fast_config (Some ''/env/claude'')),
         rcConfigLoaded = True\<rparr>)"
  by (simp add: getRCConfig_def new_provider_def env_command_world_loaded rc_world_loaded
      getEffectiveConfig_def truthy_def env_env_command_world fast_config_def Let_def)

lemma tokens_rc_claude: "tokens ''/rc/claude'' = [''/rc/claude'']"
  by (simp add: tokenizer_defs)

lemma tokens_env_claude: "tokens ''/env/claude'' = [''/env/claude'']"
  by (simp add: tokenizer_defs)

lemma applied_rc_claude:
  "applyAliases ''/rc/claude'' [(''fast'', ''--model haiku --verbose'')] = ''/rc/claude''"
  by (simp add: applyAliases_def aa_split_def aa_step_def expandPart_def unquote_def
      startsWith_def endsWith_def truthy_def)

lemma applied_env_claude:
  "applyAliases ''/env/claude'' [(''fast'', ''--model haiku --verbose'')] = ''/env/claude''"
  by (simp add: applyAliases_def aa_split_def aa_step_def expandPart_def unquote_def
      startsWith_def endsWith_def truthy_def)




lemma env_example_world: "env example_world = Map.empty"
  by (simp add: example_world_def)

lemma load_example_world: "loadClaudeRC example_world = None"
  by (simp add: loadClaudeRC_def example_world_def existsSync_def)

lemma config_example_world:
  "getRCConfig new_provider example_world = (None, new_provider\<lparr>rcConfigLoaded := True\<rparr>)"
  by (simp add: getRCConfig_def new_provider_def load_example_world)

lemma tokens_blank: "tokens '' '' = []"
  by (simp add: tokenizer_defs)

lemma tokens_twice: "tokens ''claude claude'' = [''claude'', ''claude'']"
  by (simp add: tokenizer_defs)

lemma env_world_with_model_flag:
  "env world_with_model_flag = [''CLAUDE_CODE_COMMAND'' \<mapsto> ''claude --model claude-3-5-sonnet'',
                                ''CLAUDE_CODE_MODEL'' \<mapsto> ''opus'']"
  by (simp add: world_with_model_flag_def)

lemma load_world_with_model_flag: "loadClaudeRC world_with_model_flag = None"
  by (simp add: loadClaudeRC_def world_with_model_flag_def example_world_def existsSync_def)

lemma config_world_with_model_flag:
  "getRCConfig new_provider world_with_model_flag = (None, new_provider\<lparr>rcConfigLoaded := True\<rparr>)"
  by (simp add: getRCConfig_def new_provider_def load_world_with_model_flag)

lemma tokens_model_flag:
  "tokens ''claude --model claude-3-5-sonnet'' = [''claude'', ''--model'', ''claude-3-5-sonnet'']"
  by (simp add: tokenizer_defs)

lemma resolveModelAlias_opus: "resolveModelAlias ''opus'' = Some ''claude-opus-4-20250514''"
  by (simp add: resolveModelAlias_def toLowerCase_def lowerChar_def truthy_def)

lemma resolved_world_with_model_flag:
  "fst (getClaudeCommandParsed new_provider world_with_model_flag no_params)
     = Some \<lparr>executable = ''claude'', args = [''--model'', ''claude-3-5-sonnet'']\<rparr>"
  by (simp add: getClaudeCommandParsed_def config_world_with_model_flag selectBaseCommand_def
      selectModel_def no_params_def truthy_def env_world_with_model_flag resolveModelAlias_opus
      aliasedCommand_def parseCommand_def tokens_model_flag finalArgs_def hasModelFlag_def)

lemma expanded_world_with_model_flag:
  "expandedCommand new_provider world_with_model_flag no_params = ''claude --model claude-3-5-sonnet''"
  by (simp add: expandedCommand_def baseCommandOf_def loadedConfig_def
      config_world_with_model_flag selectBaseCommand_def no_params_def truthy_def
      env_world_with_model_flag aliasedCommand_def)

lemma baseArgs_world_with_model_flag:
  "baseArgs new_provider world_with_model_flag no_params = [''--model'', ''claude-3-5-sonnet'']"
  by (simp add: baseArgs_def expanded_world_with_model_flag parseCommand_def tokens_model_flag)

lemma modelToUse_world_with_model_flag:
  "modelToUseOf new_provider world_with_model_flag no_params = Some ''claude-opus-4-20250514''"
  by (simp add: modelToUseOf_def loadedConfig_def config_world_with_model_flag selectModel_def
      no_params_def truthy_def env_world_with_model_flag resolveModelAlias_opus)

lemma env_world_with_dangling_flag:
  "env world_with_dangling_flag = [''CLAUDE_CODE_COMMAND'' \<mapsto> ''claude --model'',
                                   ''CLAUDE_CODE_MODEL'' \<mapsto> ''opus'']"
  by (simp add: world_with_dangling_flag_def)

lemma load_world_with_dangling_flag: "loadClaudeRC world_with_dangling_flag = None"
  by (simp add: loadClaudeRC_def world_with_dangling_flag_def example_world_def existsSync_def)

lemma config_world_with_dangling_flag:
  "getRCConfig new_provider world_with_dangling_flag = (None, new_provider\<lparr>rcConfigLoaded := True\<rparr>)"
  by (simp add: getRCConfig_def new_provider_def load_world_with_dangling_flag)

lemma tokens_dangling_flag: "tokens ''claude --model'' = [''claude'', ''--model'']"
  by (simp add: tokenizer_defs)

lemma resolved_world_with_dangling_flag:
  "fst (getClaudeCommandParsed new_provider world_with_dangling_flag no_params)
     = Some \<lparr>executable = ''claude'',
             args = [''--model'', ''--model'', ''claude-opus-4-20250514'']\<rparr>"
  by (simp add: getClaudeCommandParsed_def config_world_with_dangling_flag selectBaseCommand_def
      selectModel_def no_params_def truthy_def env_world_with_dangling_flag resolveModelAlias_opus
      aliasedCommand_def parseCommand_def tokens_dangling_flag finalArgs_def hasModelFlag_def)

lemma baseArgs_world_with_dangling_flag:
  "baseArgs new_provider world_with_dangling_flag no_params = [''--model'']"
  by (simp add: baseArgs_def expandedCommand_def baseCommandOf_def loadedConfig_def
      config_world_with_dangling_flag selectBaseCommand_def no_params_def truthy_def
      env_world_with_dangling_flag aliasedCommand_def parseCommand_def tokens_dangling_flag)

lemma modelToUse_world_with_dangling_flag:
  "modelToUseOf new_provider world_with_dangling_flag no_params = Some ''claude-opus-4-20250514''"
  by (simp add: modelToUseOf_def loadedConfig_def config_world_with_dangling_flag selectModel_def
      no_params_def truthy_def env_world_with_dangling_flag resolveModelAlias_opus)

lemma first_call_env_command_world:
  "getClaudeCommand new_provider env_command_world no_params
      = (Some ''/env/claude'',
         \<lparr>detectedCommand = Undefined,
          rcConfig = Some (fast_config (Some ''/env/claude'')),
          rcConfigLoaded = True\<rparr>)"
  by (simp add: getClaudeCommand_def getClaudeCommandParsed_def config_env_command_world
      selectBaseCommand_def selectModel_def no_params_def truthy_def env_env_command_world
      fast_config_def rcModel_def aliasedCommand_def applied_env_claude parseCommand_def
      tokens_env_claude finalArgs_def commandString_def)

lemma second_call_rc_world:
  "fst (getClaudeCommand
         \<lparr>detectedCommand = Undefined,
          rcConfig = Some (fast_config (Some ''/env/claude'')),
          rcConfigLoaded = True\<rparr> rc_world no_params) = Some ''/env/claude''"
  by (simp add: getClaudeCommand_def getClaudeCommandParsed_def getRCConfig_def
      selectBaseCommand_def selectModel_def no_params_def truthy_def env_rc_world
      fast_config_def rcModel_def rcCommand_def aliasedCommand_def applied_env_claude
      parseCommand_def tokens_env_claude finalArgs_def commandString_def)

lemma fresh_call_rc_world:
  "fst (getClaudeCommand new_provider rc_world no_params) = Some ''/rc/claude''"
  by (simp add: getClaudeCommand_def getClaudeCommandParsed_def config_rc_world
      selectBaseCommand_def selectModel_def no_params_def truthy_def env_rc_world
      fast_config_def rcModel_def rcCommand_def aliasedCommand_def applied_rc_claude
      parseCommand_def tokens_rc_claude finalArgs_def commandString_def)

lemma opus_alias_text_parsed:
  "parseClaudeRC e opus_alias_text =
     \<lparr>variables = [(''model'', ''sonnet'')], aliases = [(''opus'', ''--model opus'')],
      exports = [], raw = [], rc_path = []\<rparr>"
  by (simp add: opus_alias_text_def parser_defs)

lemma flag_alias_text_parsed:
  "parseClaudeRC e flag_alias_text =
     \<lparr>variables = [(''model'', ''sonnet'')], aliases = [(''--model'', ''-m'')],
      exports = [], raw = [], rc_path = []\<rparr>"
  by (simp add: flag_alias_text_def parser_defs)

lemma env_opus_alias_world:
  "env opus_alias_world = [''CLAUDE_CODE_COMMAND'' \<mapsto> ''claude --model opus'']"
  by (simp add: opus_alias_world_def)

lemma env_flag_alias_world:
  "env flag_alias_world = [''CLAUDE_CODE_COMMAND'' \<mapsto> ''claude --model opus'']"
  by (simp add: flag_alias_world_def)

lemma opus_alias_world_loaded:
  "loadClaudeRC opus_alias_world =
     Some \<lparr>variables = [(''model'', ''sonnet'')], aliases = [(''opus'', ''--model opus'')],
      exports = [], raw = [], rc_path = ''/work/.clauderc''\<rparr>"
  by (simp add: loadClaudeRC_def opus_alias_world_def example_world_def existsSync_def
      readFileSync_def opus_alias_text_parsed)

lemma flag_alias_world_loaded:
  "loadClaudeRC flag_alias_world =
     Some \<lparr>variables = [(''model'', ''sonnet'')], aliases = [(''--model'', ''-m'')],
      exports = [], raw = [], rc_path = ''/work/.clauderc''\<rparr>"
  by (simp add: loadClaudeRC_def flag_alias_world_def example_world_def existsSync_def
      readFileSync_def flag_alias_text_parsed)

lemma config_opus_alias_world:
  "getRCConfig new_provider opus_alias_world
     = (Some (alias_config [(''opus'', ''--model opus'')]),
        \<lparr>detectedCommand = Undefined,
         rcConfig = Some (alias_config [(''opus'', ''--model opus'')]),
         rcConfigLoaded = True\<rparr>)"
  by (simp add: getRCConfig_def new_provider_def opus_alias_world_loaded
      getEffectiveConfig_def truthy_def env_opus_alias_world alias_config_def Let_def)

lemma config_flag_alias_world:
  "getRCConfig new_provider flag_alias_world
     = (Some (alias_config [(''--model'', ''-m'')]),
        \<lparr>detectedCommand = Undefined,
         rcConfig = Some (alias_config [(''--model'', ''-m'')]),
         rcConfigLoaded = True\<rparr>)"
  by (simp add: getRCConfig_def new_provider_def flag_alias_world_loaded
      getEffectiveConfig_def truthy_def env_flag_alias_world alias_config_def Let_def)

lemma tokens_model_opus: "tokens ''claude --model opus'' = [''claude'', ''--model'', ''opus'']"
  by (simp add: tokenizer_defs)

lemma tokens_model_model_opus:
  "tokens ''claude --model --model opus'' = [''claude'', ''--model'', ''--model'', ''opus'']"
  by (simp add: tokenizer_defs)

lemma tokens_m_opus: "tokens ''claude -m opus'' = [''claude'', ''-m'', ''opus'']"
  by (simp add: tokenizer_defs)

lemma aa_split_model_opus: "aa_split ''claude --model opus'' = [''claude'', ''--model'', ''opus'']"
  by (simp add: aa_split_def aa_step_def)

lemma applied_opus_alias:
  "applyAliases ''claude --model opus'' [(''opus'', ''--model opus'')] = ''claude --model --model opus''"
  by (simp add: applyAliases_def aa_split_model_opus expandPart_def unquote_def startsWith_def
      endsWith_def truthy_def)

lemma applied_flag_alias:
  "applyAliases ''claude --model opus'' [(''--model'', ''-m'')] = ''claude -m opus''"
  by (simp add: applyAliases_def aa_split_model_opus expandPart_def unquote_def startsWith_def
      endsWith_def truthy_def)

lemma resolveModelAlias_sonnet: "resolveModelAlias ''sonnet'' = Some ''claude-sonnet-4-20250514''"
  by (simp add: resolveModelAlias_def toLowerCase_def lowerChar_def truthy_def)

lemma resolved_opus_alias_world:
  "fst (getClaudeCommandParsed new_provider opus_alias_world no_params)
     = Some \<lparr>executable = ''claude'', args = [''--model'', ''--model'', ''opus'']\<rparr>"
  by (simp add: getClaudeCommandParsed_def config_opus_alias_world selectBaseCommand_def
      selectModel_def no_params_def truthy_def env_opus_alias_world alias_config_def rcModel_def
      resolveModelAlias_sonnet aliasedCommand_def applied_opus_alias parseCommand_def
      tokens_model_model_opus finalArgs_def hasModelFlag_def)

lemma resolved_flag_alias_world:
  "fst (getClaudeCommandParsed new_provider flag_alias_world no_params)
     = Some \<lparr>executable = ''claude'',
             args = [''-m'', ''opus'', ''--model'', ''claude-sonnet-4-20250514'']\<rparr>"
  by (simp add: getClaudeCommandParsed_def config_flag_alias_world selectBaseCommand_def
      selectModel_def no_params_def truthy_def env_flag_alias_world alias_config_def rcModel_def
      resolveModelAlias_sonnet aliasedCommand_def applied_flag_alias parseCommand_def
      tokens_m_opus finalArgs_def hasModelFlag_def)

lemma baseCommand_opus_alias_world:
  "baseCommandOf new_provider opus_alias_world no_params = Some ''claude --model opus''"
  by (simp add: baseCommandOf_def loadedConfig_def config_opus_alias_world selectBaseCommand_def
      no_params_def truthy_def env_opus_alias_world)

lemma baseCommand_flag_alias_world:
  "baseCommandOf new_provider flag_alias_world no_params = Some ''claude --model opus''"
  by (simp add: baseCommandOf_def loadedConfig_def config_flag_alias_world selectBaseCommand_def
      no_params_def truthy_def env_flag_alias_world)

lemma modelToUse_opus_alias_world:
  "modelToUseOf new_provider opus_alias_world no_params = Some ''claude-sonnet-4-20250514''"
  by (simp add: modelToUseOf_def loadedConfig_def config_opus_alias_world selectModel_def
      no_params_def truthy_def env_opus_alias_world alias_config_def rcModel_def
      resolveModelAlias_sonnet)

lemma modelToUse_flag_alias_world:
  "modelToUseOf new_provider flag_alias_world no_params = Some ''claude-sonnet-4-20250514''"
  by (simp add: modelToUseOf_def loadedConfig_def config_flag_alias_world selectModel_def
      no_params_def truthy_def env_flag_alias_world alias_config_def rcModel_def
      resolveModelAlias_sonnet)

lemma args_model_opus: "args (parseCommand ''claude --model opus'') = [''--model'', ''opus'']"
  by (simp add: parseCommand_def tokens_model_opus)

lemma loaded_world_with_model_flag: "loadedConfig new_provider world_with_model_flag = None"
  by (simp add: loadedConfig_def config_world_with_model_flag)

lemma baseCommand_world_with_model_flag:
  "baseCommandOf new_provider world_with_model_flag no_params
     = Some ''claude --model claude-3-5-sonnet''"
  by (simp add: baseCommandOf_def loadedConfig_def config_world_with_model_flag
      selectBaseCommand_def no_params_def truthy_def env_world_with_model_flag)

section \<open>The order of the command sources\<close>

text \<open>
  On the first resolution of an instance the base command is the first truthy one of the explicit
  parameter, the environment variable, the command variable of the RC file and the detected path,
  and the resolution returns \<open>null\<close> exactly when there is none.
\<close>

lemma first_config_command:
  "\<not> truthy (env w ''CLAUDE_CODE_COMMAND'') \<Longrightarrow>
     truthy (rcCommand (loadedConfig new_provider w)) = truthy (rcFileCommand w)
     \<and> (truthy (rcFileCommand w) \<longrightarrow> rcCommand (loadedConfig new_provider w) = rcFileCommand w)"
  by (auto simp: loadedConfig_def getRCConfig_def new_provider_def rcCommand_def rcFileCommand_def
      getEffectiveConfig_def Let_def truthy_def split: option.splits)

lemma first_detection:
  "detectedCommand inst = Undefined \<Longrightarrow> fst (detectClaudeCommand inst w) = autoDetected w"
  by (simp add: detectClaudeCommand_def autoDetected_def split: option.splits)

lemma first_resolution_order:
  "baseCommandOf new_provider w p =
     (if truthy (claudeCodeCommand p) then claudeCodeCommand p
      else if truthy (env w ''CLAUDE_CODE_COMMAND'') then env w ''CLAUDE_CODE_COMMAND''
      else if truthy (rcFileCommand w) then rcFileCommand w
      else if truthy (autoDetected w) then autoDetected w
      else None)"
proof -
  have d: "detectedCommand (snd (getRCConfig new_provider w)) = Undefined"
    by (simp add: getRCConfig_def new_provider_def Let_def split: option.splits)
  show ?thesis
    using first_config_command [of w] first_detection [OF d, of w]
    by (auto simp: baseCommandOf_def selectBaseCommand_def split: prod.splits)
qed

text \<open>
  C1. An instance that first resolves while \<open>CLAUDE_CODE_COMMAND\<close> is set keeps that value in
  its cached configuration. When the variable is gone at a later resolution, with no explicit
  parameter, the instance still answers with the old value of the variable, although the command
  variable of the RC file is the first source that is present; a new instance on the same machine
  answers with the RC value.
\<close>

theorem stale_environment_command:
  "fst (getClaudeCommand new_provider env_command_world no_params) = Some ''/env/claude''
   \<and> claudeCodeCommand no_params = None
   \<and> env rc_world ''CLAUDE_CODE_COMMAND'' = None
   \<and> map_option variables (loadClaudeRC rc_world) = Some [(''command'', ''/rc/claude'')]
   \<and> fst (getClaudeCommand (snd (getClaudeCommand new_provider env_command_world no_params))
             rc_world no_params) = Some ''/env/claude''
   \<and> fst (getClaudeCommand new_provider rc_world no_params) = Some ''/rc/claude''"
proof -
  have p: "claudeCodeCommand no_params = None"
    by (simp add: no_params_def)
  show ?thesis
    using p
    by (simp add: first_call_env_command_world second_call_rc_world fresh_call_rc_world
        env_rc_world rc_world_loaded)
qed

section \<open>The model flag\<close>

text \<open>
  The claim speaks of the arguments of the tokenized base command. The resolution first rewrites
  the base command with \<open>applyAliases\<close>, and looks for the model flag in the rewritten command
  only. On the first machine the base command has the arguments \<open>--model opus\<close>, with the flag
  before a value, and a model is resolved; the resolved arguments are
  \<open>--model --model opus\<close>, not the arguments of the base command. On the second machine the flag
  of the base command is rewritten to \<open>-m\<close>, and a second model flag is appended.
\<close>

theorem alias_rewrites_model_flag_counterexample:
  "baseCommandOf new_provider opus_alias_world no_params = Some ''claude --model opus''
   \<and> baseCommandOf new_provider flag_alias_world no_params = Some ''claude --model opus''
   \<and> args (parseCommand ''claude --model opus'') = [''--model'', ''opus'']
   \<and> hasModelFlag (args (parseCommand ''claude --model opus''))
   \<and> modelToUseOf new_provider opus_alias_world no_params = Some ''claude-sonnet-4-20250514''
   \<and> modelToUseOf new_provider flag_alias_world no_params = Some ''claude-sonnet-4-20250514''
   \<and> fst (getClaudeCommandParsed new_provider opus_alias_world no_params)
       = Some \<lparr>executable = ''claude'', args = [''--model'', ''--model'', ''opus'']\<rparr>
   \<and> fst (getClaudeCommandParsed new_provider flag_alias_world no_params)
       = Some \<lparr>executable = ''claude'',
               args = [''-m'', ''opus'', ''--model'', ''claude-sonnet-4-20250514'']\<rparr>"
  by (simp add: baseCommand_opus_alias_world baseCommand_flag_alias_world args_model_opus
      modelToUse_opus_alias_world modelToUse_flag_alias_world resolved_opus_alias_world
      resolved_flag_alias_world hasModelFlag_def)

text \<open>
  C2, as amended. When a model value is resolved without an RC alias (\<open>modelToUse\<close> is set, from
  \<open>params.modelId\<close>, from \<open>CLAUDE_CODE_MODEL\<close> or from the model of the configuration), and the
  arguments of the alias-expanded base command (the base command after \<open>applyAliases\<close>) hold
  \<open>--model\<close> at a position that is not the last one, the resolved arguments are those
  arguments, unchanged. Otherwise \<open>--model\<close> and the model value are appended to them; so when
  \<open>--model\<close> occurs only as their last argument, the result holds it twice. When no RC
  configuration is loaded, the alias-expanded base command is the base command itself, and these
  arguments are the arguments of the tokenized base command.
\<close>

theorem model_flag_idempotence:
  assumes "fst (getClaudeCommandParsed inst w p) = Some r"
      and "modelToUseOf inst w p = Some m"
  shows "(''--model'' \<in> set (butlast (baseArgs inst w p)) \<longrightarrow> args r = baseArgs inst w p)
       \<and> (''--model'' \<notin> set (butlast (baseArgs inst w p)) \<longrightarrow>
            args r = baseArgs inst w p @ [''--model'', m])
       \<and> (''--model'' \<notin> set xs \<and> baseArgs inst w p = xs @ [''--model''] \<longrightarrow>
            args r = xs @ [''--model'', ''--model'', m])
       \<and> (loadedConfig inst w = None \<longrightarrow>
            baseArgs inst w p = args (parseCommand (the (baseCommandOf inst w p))))"
proof -
  from assms(2) have m: "m \<noteq> []" and none: "modelArgsOf inst w p = None"
    using selectModel_cases [of p w "loadedConfig inst w" m]
    by (simp_all add: modelToUseOf_def modelArgsOf_def)
  have "args r = finalArgs (baseArgs inst w p) (Some m) None"
    using resolution_result(3) [OF assms(1)] assms(2) none by simp
  then have a: "args r = (if ''--model'' \<in> set (butlast (baseArgs inst w p))
      then baseArgs inst w p else baseArgs inst w p @ [''--model'', m])"
    using m by (simp add: finalArgs_def truthy_def hasModelFlag_iff)
  have b: "args r = xs @ [''--model'', ''--model'', m]"
    if "''--model'' \<notin> set xs \<and> baseArgs inst w p = xs @ [''--model'']"
    using a that by (simp add: butlast_append)
  have c: "baseArgs inst w p = args (parseCommand (the (baseCommandOf inst w p)))"
    if "loadedConfig inst w = None"
    using that by (simp add: baseArgs_def expandedCommand_def aliasedCommand_def)
  from a b c show ?thesis
    by simp
qed

theorem model_flag_idempotence_witness:
  "fst (getClaudeCommandParsed new_provider world_with_model_flag no_params)
     = Some \<lparr>executable = ''claude'', args = [''--model'', ''claude-3-5-sonnet'']\<rparr>
   \<and> modelToUseOf new_provider world_with_model_flag no_params = Some ''claude-opus-4-20250514''
   \<and> ''--model'' \<in> set (butlast (baseArgs new_provider world_with_model_flag no_params))
   \<and> baseArgs new_provider world_with_model_flag no_params = [''--model'', ''claude-3-5-sonnet'']
   \<and> loadedConfig new_provider world_with_model_flag = None
   \<and> args (parseCommand (the (baseCommandOf new_provider world_with_model_flag no_params)))
     = [''--model'', ''claude-3-5-sonnet'']
   \<and> fst (getClaudeCommand new_provider world_with_model_flag no_params)
     = Some ''claude --model claude-3-5-sonnet''
   \<and> modelToUseOf new_provider world_with_dangling_flag no_params = Some ''claude-opus-4-20250514''
   \<and> baseArgs new_provider world_with_dangling_flag no_params = [] @ [''--model'']
   \<and> fst (getClaudeCommandParsed new_provider world_with_dangling_flag no_params)
     = Some \<lparr>executable = ''claude'',
             args = [''--model'', ''--model'', ''claude-opus-4-20250514'']\<rparr>"
proof -
  have s: "fst (getClaudeCommand new_provider world_with_model_flag no_params)
     = Some ''claude --model claude-3-5-sonnet''"
    by (simp add: getClaudeCommand_def split_beta resolved_world_with_model_flag commandString_def)
  have n: "''--model'' \<notin> set ([] :: string list)
      \<and> baseArgs new_provider world_with_dangling_flag no_params = [] @ [''--model'']"
    by (simp add: baseArgs_world_with_dangling_flag)
  have t: "args (parseCommand (the (baseCommandOf new_provider world_with_model_flag no_params)))
     = [''--model'', ''claude-3-5-sonnet'']"
    by (simp add: baseCommand_world_with_model_flag parseCommand_def tokens_model_flag)
  show ?thesis
    using model_flag_idempotence
        [OF resolved_world_with_model_flag modelToUse_world_with_model_flag]
      model_flag_idempotence
        [OF resolved_world_with_dangling_flag modelToUse_world_with_dangling_flag, of "[]"]
      resolved_world_with_model_flag modelToUse_world_with_model_flag
      baseArgs_world_with_model_flag s n t loaded_world_with_model_flag
      resolved_world_with_dangling_flag modelToUse_world_with_dangling_flag
    by simp
qed

section \<open>Alias expansion and the shape of the resolved command\<close>






text \<open>
  C9, as amended. A successful resolution returns the first token of the alias-expanded base
  command as executable, and that token is not empty; only when the command has no token at all
  (it is made of spaces or of empty quotes) is the executable the empty string. The returned
  arguments begin with exactly the tokens after the first one.
\<close>

theorem resolved_command_shape:
  assumes "fst (getClaudeCommandParsed inst w p) = Some r"
  shows "(tokens (expandedCommand inst w p) \<noteq> [] \<longrightarrow>
            executable r \<noteq> [] \<and> tokens (expandedCommand inst w p) = executable r # baseArgs inst w p)
       \<and> (tokens (expandedCommand inst w p) = [] \<longrightarrow> executable r = [] \<and> baseArgs inst w p = [])
       \<and> take (length (baseArgs inst w p)) (args r) = baseArgs inst w p"
proof -
  have ne: "[] \<notin> set (tokens (expandedCommand inst w p))"
    by (rule tokens_nonempty)
  have ex: "executable r = executable (parseCommand (expandedCommand inst w p))"
    by (rule resolution_result(2) [OF assms])
  have ar: "args r = finalArgs (baseArgs inst w p) (modelToUseOf inst w p) (modelArgsOf inst w p)"
    by (rule resolution_result(3) [OF assms])
  have pre: "take (length (baseArgs inst w p)) (args r) = baseArgs inst w p"
    unfolding ar by (simp add: finalArgs_def)
  show ?thesis
    using ne ex pre
    by (cases "tokens (expandedCommand inst w p)")
       (auto simp: baseArgs_def parseCommand_def Let_def)
qed

theorem resolved_command_shape_witness:
  "fst (getClaudeCommandParsed new_provider world_with_model_flag no_params)
     = Some \<lparr>executable = ''claude'', args = [''--model'', ''claude-3-5-sonnet'']\<rparr>
   \<and> tokens (expandedCommand new_provider world_with_model_flag no_params)
     = [''claude'', ''--model'', ''claude-3-5-sonnet'']"
  using resolved_command_shape [OF resolved_world_with_model_flag]
    resolved_world_with_model_flag expanded_world_with_model_flag tokens_model_flag
  by simp

text \<open>
  The claim as it stands fails twice: a base command of one space resolves, with the empty
  string as executable; and the arguments of \<open>claude claude\<close> hold the executable's name.
\<close>

theorem empty_executable_counterexample:
  "fst (getClaudeCommandParsed new_provider example_world blank_params)
     = Some \<lparr>executable = [], args = []\<rparr>
   \<and> fst (getClaudeCommandParsed new_provider example_world twice_params)
     = Some \<lparr>executable = ''claude'', args = [''claude'']\<rparr>"
  by (simp add: getClaudeCommandParsed_def config_example_world selectBaseCommand_def
      selectModel_def blank_params_def twice_params_def truthy_def env_example_world
      rcModel_def aliasedCommand_def parseCommand_def tokens_blank tokens_twice finalArgs_def)

section \<open>The command executor\<close>

lemma mergeEntry_keeps: "truthy (e k) \<Longrightarrow> mergeEntry e kv k = e k"
  by (auto simp: mergeEntry_def)

lemma mergeEnvironment_keeps:
  "truthy (e k) \<Longrightarrow> mergeEnvironment entries e k = e k"
  unfolding mergeEnvironment_def
proof (induction entries arbitrary: e)
  case Nil
  show ?case by simp
next
  case (Cons kv entries)
  have "truthy (mergeEntry e kv k)"
    using Cons.prems by (simp add: mergeEntry_keeps)
  then have "foldl mergeEntry (mergeEntry e kv) entries k = mergeEntry e kv k"
    by (rule Cons.IH)
  then show ?case
    using Cons.prems by (simp add: mergeEntry_keeps)
qed

lemma mergeEnvironment_writes:
  "mergeEnvironment entries e k \<noteq> e k \<Longrightarrow> \<not> truthy (e k) \<and> k \<in> fst ` set entries"
  unfolding mergeEnvironment_def
proof (induction entries arbitrary: e)
  case Nil
  then show ?case by simp
next
  case (Cons kv entries)
  show ?case
  proof (cases "foldl mergeEntry (mergeEntry e kv) entries k = mergeEntry e kv k")
    case True
    with Cons.prems have "mergeEntry e kv k \<noteq> e k" by simp
    then show ?thesis
      by (auto simp: mergeEntry_def split: if_splits)
  next
    case False
    from Cons.IH [OF False] have a: "\<not> truthy (mergeEntry e kv k)" and b: "k \<in> fst ` set entries"
      by simp_all
    from a have "\<not> truthy (e k)"
      by (auto simp: mergeEntry_def truthy_def split: if_splits)
    with b show ?thesis by simp
  qed
qed

lemma env_cleanup: "env (cleanup w p) = env w"
  by (simp add: cleanup_def unlinkQuietly_def)

lemma env_writeFile: "env (writeFile w p d) = env w"
  by (simp add: writeFile_def)

lemma final_env:
  "env (final_world (executeClaudeCode fr inst w input opts evs))
     = (case loadedConfig inst w of None \<Rightarrow> env w
        | Some c \<Rightarrow> mergeEnvironment (environment c) (env w))"
  by (auto simp: executeClaudeCode_def loadedConfig_def Let_def env_cleanup env_writeFile
      split: prod.splits option.splits)

text \<open>
  C7, as amended. Over one invocation, a key of the process environment whose value is truthy
  (set and not the empty string) keeps its value; and a key whose value differs afterwards was
  falsy before (unset, or set to the empty string) and is one of the export keys of the loaded
  RC configuration.
\<close>

theorem rc_exports_fill_only_falsy_keys:
  "(truthy (env w k) \<longrightarrow>
      env (final_world (executeClaudeCode fr inst w input opts evs)) k = env w k)
   \<and> (env (final_world (executeClaudeCode fr inst w input opts evs)) k \<noteq> env w k \<longrightarrow>
        \<not> truthy (env w k)
        \<and> (\<exists>c. loadedConfig inst w = Some c \<and> k \<in> fst ` set (environment c)))"
proof (cases "loadedConfig inst w")
  case None
  then show ?thesis by (simp add: final_env)
next
  case (Some c)
  then show ?thesis
    using mergeEnvironment_keeps [of "env w" k "environment c"]
      mergeEnvironment_writes [of "environment c" "env w" k]
    by (auto simp: final_env)
qed

lemma outcome_spawned:
  assumes "Spawn cp as \<in> set (trace (executeClaudeCode fr inst w input opts evs))"
  shows "outcome (executeClaudeCode fr inst w input opts evs) = settled (runChild evs)"
  using assms
  by (auto simp: executeClaudeCode_def Let_def cleanupTrace_def completion_def
      split: prod.splits option.splits if_splits)

lemma settle_sticky: "settled st \<noteq> None \<Longrightarrow> settled (handleEvent st ev) = settled st"
  by (cases ev) (auto simp: handleEvent_def onClose_def settle_def Let_def)

lemma settled_sticky:
  "settled st \<noteq> None \<Longrightarrow> settled (foldl handleEvent st evs) = settled st"
proof (induction evs arbitrary: st)
  case Nil
  show ?case by simp
next
  case (Cons ev evs)
  have "settled (handleEvent st ev) = settled st"
    using Cons.prems by (rule settle_sticky)
  moreover from this Cons.prems have "settled (handleEvent st ev) \<noteq> None" by simp
  ultimately show ?case
    using Cons.IH [of "handleEvent st ev"] by simp
qed

lemma data_events:
  assumes "list_all isData pre"
  shows "foldl handleEvent st pre
      = st\<lparr>stdout := stdout st @ stdoutOf pre, stderr := stderr st @ stderrOf pre\<rparr>"
  using assms
proof (induction pre arbitrary: st)
  case Nil
  show ?case by simp
next
  case (Cons ev pre)
  then show ?case
    by (cases ev) (simp_all add: isData_def handleEvent_def)
qed

lemma close_first:
  assumes "list_all isData pre"
  shows "settled (runChild (pre @ Close code # post))
      = settled (onClose code (exec_start\<lparr>stdout := stdoutOf pre, stderr := stderrOf pre\<rparr>))"
proof -
  have a: "foldl handleEvent exec_start pre
      = exec_start\<lparr>stdout := stdoutOf pre, stderr := stderrOf pre\<rparr>"
    using data_events [OF assms, of exec_start] by (simp add: exec_start_def)
  have b: "settled (onClose code (exec_start\<lparr>stdout := stdoutOf pre, stderr := stderrOf pre\<rparr>))
      \<noteq> None"
    by (simp add: onClose_def settle_def exec_start_def Let_def)
  show ?thesis
    using settled_sticky [OF b, of post]
    by (simp add: runChild_def a handleEvent_def)
qed

text \<open>
  C5, as amended. When the child was spawned and its \<open>close\<close> event is the first event other
  than output data (no timeout and no \<open>error\<close> event came before it), the invocation rejects with
  the message that holds the exit code and the collected standard error when the code is not zero;
  it rejects with the collected standard error when the code is zero, standard error is not empty
  and standard output is empty; and otherwise it resolves with the trimmed standard output.
  Whatever follows the \<open>close\<close> event changes nothing.
\<close>

theorem close_settles_when_first:
  assumes "Spawn cp as \<in> set (trace (executeClaudeCode fr inst w input opts (pre @ Close code # post)))"
      and "list_all isData pre"
  shows "(code \<noteq> Some 0 \<longrightarrow>
            outcome (executeClaudeCode fr inst w input opts (pre @ Close code # post))
              = Some (Inl (Error (''Claude Code error (code '' @ showCode code @ ''): ''
                                    @ stderrOf pre))))
       \<and> (code = Some 0 \<and> stderrOf pre \<noteq> [] \<and> stdoutOf pre = [] \<longrightarrow>
            outcome (executeClaudeCode fr inst w input opts (pre @ Close code # post))
              = Some (Inl (Error (''Claude Code error: '' @ stderrOf pre))))
       \<and> (code = Some 0 \<and> \<not> (stderrOf pre \<noteq> [] \<and> stdoutOf pre = []) \<longrightarrow>
            outcome (executeClaudeCode fr inst w input opts (pre @ Close code # post))
              = Some (Inr (trim (stdoutOf pre))))"
proof -
  have "outcome (executeClaudeCode fr inst w input opts (pre @ Close code # post))
      = settled (onClose code (exec_start\<lparr>stdout := stdoutOf pre, stderr := stderrOf pre\<rparr>))"
    using outcome_spawned [OF assms(1)] close_first [OF assms(2)] by simp
  also have "\<dots> = Some (if code \<noteq> Some 0
        then Inl (Error (''Claude Code error (code '' @ showCode code @ ''): '' @ stderrOf pre))
        else if stderrOf pre \<noteq> [] \<and> stdoutOf pre = []
        then Inl (Error (''Claude Code error: '' @ stderrOf pre))
        else Inr (trim (stdoutOf pre)))"
    by (simp add: onClose_def settle_def exec_start_def Let_def del: append.simps)
  finally have o: "outcome (executeClaudeCode fr inst w input opts (pre @ Close code # post))
      = Some (if code \<noteq> Some 0
        then Inl (Error (''Claude Code error (code '' @ showCode code @ ''): '' @ stderrOf pre))
        else if stderrOf pre \<noteq> [] \<and> stdoutOf pre = []
        then Inl (Error (''Claude Code error: '' @ stderrOf pre))
        else Inr (trim (stdoutOf pre)))" .
  show ?thesis
    unfolding o by (simp del: append.simps)
qed

lemma existsSync_can_unlink: "existsSync (w\<lparr>can_unlink := cu\<rparr>) = existsSync w"
  by (simp add: existsSync_def fun_eq_iff)

lemma readFileSync_can_unlink: "readFileSync (w\<lparr>can_unlink := cu\<rparr>) = readFileSync w"
  by (simp add: readFileSync_def fun_eq_iff)

lemma accessSync_X_can_unlink: "accessSync_X (w\<lparr>can_unlink := cu\<rparr>) = accessSync_X w"
  by (simp add: accessSync_X_def fun_eq_iff)

lemma loadFirst_can_unlink: "loadFirst (w\<lparr>can_unlink := cu\<rparr>) ps = loadFirst w ps"
  by (induction ps) (simp_all add: existsSync_can_unlink readFileSync_can_unlink split: option.splits)

lemma loadClaudeRC_can_unlink: "loadClaudeRC (w\<lparr>can_unlink := cu\<rparr>) = loadClaudeRC w"
  unfolding loadClaudeRC_def loadFirst_can_unlink by simp

lemma getEffectiveConfig_can_unlink:
  "getEffectiveConfig (w\<lparr>can_unlink := cu\<rparr>) = getEffectiveConfig w"
  by (simp add: getEffectiveConfig_def fun_eq_iff Let_def)

lemma getRCConfig_can_unlink: "getRCConfig inst (w\<lparr>can_unlink := cu\<rparr>) = getRCConfig inst w"
  unfolding getRCConfig_def loadClaudeRC_can_unlink getEffectiveConfig_can_unlink ..

lemma firstExecutable_can_unlink:
  "firstExecutable (w\<lparr>can_unlink := cu\<rparr>) ps = firstExecutable w ps"
  by (induction ps) (simp_all add: existsSync_can_unlink accessSync_X_can_unlink)

lemma commonPaths_can_unlink: "commonPaths (w\<lparr>can_unlink := cu\<rparr>) = commonPaths w"
  by (simp add: commonPaths_def)

lemma whichClaude_can_unlink: "whichClaude (w\<lparr>can_unlink := cu\<rparr>) = whichClaude w"
  unfolding whichClaude_def existsSync_can_unlink by simp

lemma detectClaudeCommand_can_unlink:
  "detectClaudeCommand inst (w\<lparr>can_unlink := cu\<rparr>) = detectClaudeCommand inst w"
  unfolding detectClaudeCommand_def whichClaude_can_unlink commonPaths_can_unlink
    firstExecutable_can_unlink ..

lemma selectBaseCommand_can_unlink:
  "selectBaseCommand p (w\<lparr>can_unlink := cu\<rparr>) rc inst = selectBaseCommand p w rc inst"
  unfolding selectBaseCommand_def detectClaudeCommand_can_unlink by simp

lemma selectModel_can_unlink: "selectModel p (w\<lparr>can_unlink := cu\<rparr>) rc = selectModel p w rc"
  by (simp add: selectModel_def)

lemma getClaudeCommandParsed_can_unlink:
  "getClaudeCommandParsed inst (w\<lparr>can_unlink := cu\<rparr>) p = getClaudeCommandParsed inst w p"
  unfolding getClaudeCommandParsed_def getRCConfig_can_unlink selectBaseCommand_can_unlink
    selectModel_can_unlink ..

lemma env_update_can_unlink:
  "w\<lparr>can_unlink := cu, env := e\<rparr> = (w\<lparr>env := e\<rparr>)\<lparr>can_unlink := cu\<rparr>"
  by simp

lemma outcome_can_unlink:
  "outcome (executeClaudeCode fr inst (w\<lparr>can_unlink := cu\<rparr>) input opts evs)
     = outcome (executeClaudeCode fr inst w input opts evs)"
proof -
  obtain rc inst1 where rc: "getRCConfig inst w = (rc, inst1)"
    by (cases "getRCConfig inst w")
  define w1 where "w1 = (case rc of None \<Rightarrow> w
      | Some c \<Rightarrow> w\<lparr>env := mergeEnvironment (environment c) (env w)\<rparr>)"
  have w1': "(case rc of None \<Rightarrow> w\<lparr>can_unlink := cu\<rparr>
      | Some c \<Rightarrow> w\<lparr>can_unlink := cu,
           env := mergeEnvironment (environment c) (env (w\<lparr>can_unlink := cu\<rparr>))\<rparr>)
      = w1\<lparr>can_unlink := cu\<rparr>"
    by (simp add: w1_def split: option.splits)
  obtain pc inst2 where pc: "getClaudeCommandParsed inst1 w1 opts = (pc, inst2)"
    by (cases "getClaudeCommandParsed inst1 w1 opts")
  have l: "outcome (executeClaudeCode fr inst (w\<lparr>can_unlink := cu\<rparr>) input opts evs)
      = (case pc of None \<Rightarrow> Some (Inl (Error notFoundMessage))
         | Some parsedCommand \<Rightarrow>
             if \<not> accessSync_X w1 (executable parsedCommand)
             then Some (Inl (Error (notExecutableMessage (executable parsedCommand))))
             else if \<not> can_write w1 (tempFileName w1)
             then Some (Inl (RuntimeError ''writeFileSync''))
             else settled (runChild evs))"
    unfolding executeClaudeCode_def getRCConfig_can_unlink rc
    by (simp add: w1' getClaudeCommandParsed_can_unlink pc accessSync_X_can_unlink
        tempFileName_def Let_def split: option.splits)
  have r: "outcome (executeClaudeCode fr inst w input opts evs)
      = (case pc of None \<Rightarrow> Some (Inl (Error notFoundMessage))
         | Some parsedCommand \<Rightarrow>
             if \<not> accessSync_X w1 (executable parsedCommand)
             then Some (Inl (Error (notExecutableMessage (executable parsedCommand))))
             else if \<not> can_write w1 (tempFileName w1)
             then Some (Inl (RuntimeError ''writeFileSync''))
             else settled (runChild evs))"
    unfolding executeClaudeCode_def rc
    by (simp add: w1_def [symmetric] pc Let_def split: option.splits)
  show ?thesis
    unfolding l r ..
qed

lemma cleanup_removes:
  "tf \<noteq> [] \<Longrightarrow> can_unlink w tf \<Longrightarrow> files (cleanup w tf) tf = None"
  by (simp add: cleanup_def unlinkQuietly_def existsSync_def)

lemma can_unlink_writeFile: "can_unlink (writeFile w p d) = can_unlink w"
  by (simp add: writeFile_def)

lemma trace_shape:
  assumes "WriteFile tf \<in> set (trace (executeClaudeCode fr inst w input opts evs))"
      and "tf \<noteq> []"
  shows "\<exists>mid w'. trace (executeClaudeCode fr inst w input opts evs)
            = [WriteFile tf] @ mid @ [Unlink tf]
                @ completion (outcome (executeClaudeCode fr inst w input opts evs))
          \<and> (\<forall>x. Returned x \<notin> set mid)
          \<and> final_world (executeClaudeCode fr inst w input opts evs) = cleanup w' tf
          \<and> can_unlink w' = can_unlink w"
proof -
  obtain rc inst1 where rc: "getRCConfig inst w = (rc, inst1)"
    by (cases "getRCConfig inst w")
  define w1 where "w1 = (case rc of None \<Rightarrow> w
      | Some c \<Rightarrow> w\<lparr>env := mergeEnvironment (environment c) (env w)\<rparr>)"
  have cu: "can_unlink w1 = can_unlink w"
    by (simp add: w1_def split: option.splits)
  obtain pc inst2 where pc: "getClaudeCommandParsed inst1 w1 opts = (pc, inst2)"
    by (cases "getClaudeCommandParsed inst1 w1 opts")
  show ?thesis
  proof (cases pc)
    case None
    with assms rc pc show ?thesis
      by (simp add: executeClaudeCode_def w1_def [symmetric])
  next
    case (Some parsedCommand)
    show ?thesis
    proof (cases "accessSync_X w1 (executable parsedCommand)")
      case False
      with assms rc pc Some show ?thesis
        by (simp add: executeClaudeCode_def w1_def [symmetric] Let_def)
    next
      case True
      show ?thesis
      proof (cases "can_write w1 (tempFileName w1)")
        case False
        have t: "trace (executeClaudeCode fr inst w input opts evs)
            = [WriteFile (tempFileName w1)] @ cleanupTrace (tempFileName w1)
                @ [Returned (Inl (RuntimeError ''writeFileSync''))]"
          and o: "outcome (executeClaudeCode fr inst w input opts evs)
            = Some (Inl (RuntimeError ''writeFileSync''))"
          and f: "final_world (executeClaudeCode fr inst w input opts evs)
            = cleanup w1 (tempFileName w1)"
          using rc pc Some True False
          by (simp_all add: executeClaudeCode_def w1_def [symmetric] Let_def)
        from assms t have tf: "tf = tempFileName w1"
          by (auto simp: cleanupTrace_def split: if_splits)
        show ?thesis
          using assms(2) cu
          by (intro exI [of _ "[]"] exI [of _ w1])
             (simp add: t o f tf [symmetric] cleanupTrace_def completion_def)
      next
        case False': True
        define w2 where "w2 = writeFile w1 (tempFileName w1)
            (if env w1 ''CLAUDE_CODE_USE_FILE_REFERENCE'' = Some ''true''
             then fr input else input)"
        have t: "trace (executeClaudeCode fr inst w input opts evs)
            = [WriteFile (tempFileName w1),
               Spawn (executable parsedCommand) (printArgs (args parsedCommand))]
                @ cleanupTrace (tempFileName w1) @ completion (settled (runChild evs))"
          and o: "outcome (executeClaudeCode fr inst w input opts evs) = settled (runChild evs)"
          and f: "final_world (executeClaudeCode fr inst w input opts evs)
            = cleanup w2 (tempFileName w1)"
          using rc pc Some True False'
          by (simp_all add: executeClaudeCode_def w1_def [symmetric] w2_def Let_def)
        from assms t have tf: "tf = tempFileName w1"
          by (auto simp: cleanupTrace_def completion_def split: if_splits option.splits)
        have cu2: "can_unlink w2 = can_unlink w"
          by (simp add: w2_def can_unlink_writeFile cu)
        show ?thesis
          using assms(2) cu2
          by (intro exI [of _ "[Spawn (executable parsedCommand) (printArgs (args parsedCommand))]"]
                exI [of _ w2])
             (simp add: t o f tf [symmetric] cleanupTrace_def)
      qed
    qed
  qed
qed

text \<open>
  C6. When an invocation gets as far as writing the temporary file, the removal of that file is
  attempted exactly once, after the write and before the invocation completes, whatever the
  outcome is (the events of the child are arbitrary: a normal close, an error, the timeout, or
  nothing at all); when the removal is permitted the file is gone afterwards; and whether it is
  permitted or fails has no influence on the outcome the caller sees.
\<close>

theorem temp_file_removed:
  assumes "WriteFile tf \<in> set (trace (executeClaudeCode fr inst w input opts evs))"
      and "tf \<noteq> []"
  shows "(\<exists>mid. trace (executeClaudeCode fr inst w input opts evs)
            = [WriteFile tf] @ mid @ [Unlink tf]
                @ completion (outcome (executeClaudeCode fr inst w input opts evs))
          \<and> (\<forall>x. Returned x \<notin> set mid))
       \<and> (can_unlink w tf \<longrightarrow>
            files (final_world (executeClaudeCode fr inst w input opts evs)) tf = None)
       \<and> outcome (executeClaudeCode fr inst (w\<lparr>can_unlink := cu\<rparr>) input opts evs)
            = outcome (executeClaudeCode fr inst w input opts evs)"
proof -
  from trace_shape [OF assms] obtain mid w' where
    t: "trace (executeClaudeCode fr inst w input opts evs)
            = [WriteFile tf] @ mid @ [Unlink tf]
                @ completion (outcome (executeClaudeCode fr inst w input opts evs))"
    and r: "\<forall>x. Returned x \<notin> set mid"
    and f: "final_world (executeClaudeCode fr inst w input opts evs) = cleanup w' tf"
    and c: "can_unlink w' = can_unlink w"
    by blast
  have "can_unlink w tf \<longrightarrow>
      files (final_world (executeClaudeCode fr inst w input opts evs)) tf = None"
    using cleanup_removes [OF assms(2), of w'] c f by simp
  with t r outcome_can_unlink show ?thesis
    by blast
qed

lemma env_exec_world: "env exec_world = [''CLAUDE_CODE_COMMAND'' \<mapsto> ''/usr/bin/claude'']"
  by (simp add: exec_world_def)

lemma load_exec_world: "loadClaudeRC exec_world = None"
  by (simp add: loadClaudeRC_def exec_world_def example_world_def existsSync_def)

lemma config_exec_world:
  "getRCConfig new_provider exec_world = (None, new_provider\<lparr>rcConfigLoaded := True\<rparr>)"
  by (simp add: getRCConfig_def new_provider_def load_exec_world)

lemma config_exec_world_loaded:
  "getRCConfig (new_provider\<lparr>rcConfigLoaded := True\<rparr>) exec_world
     = (None, new_provider\<lparr>rcConfigLoaded := True\<rparr>)"
  by (simp add: getRCConfig_def new_provider_def)

lemma tokens_usr_bin_claude: "tokens ''/usr/bin/claude'' = [''/usr/bin/claude'']"
  by (simp add: tokenizer_defs)

lemma resolved_exec_world:
  "getClaudeCommandParsed (new_provider\<lparr>rcConfigLoaded := True\<rparr>) exec_world no_params
     = (Some \<lparr>executable = ''/usr/bin/claude'', args = []\<rparr>,
        new_provider\<lparr>rcConfigLoaded := True\<rparr>)"
  by (simp add: getClaudeCommandParsed_def config_exec_world_loaded selectBaseCommand_def
      selectModel_def no_params_def truthy_def env_exec_world rcModel_def aliasedCommand_def
      parseCommand_def tokens_usr_bin_claude finalArgs_def)

lemma access_exec_world: "accessSync_X exec_world ''/usr/bin/claude''"
  by (simp add: accessSync_X_def exec_world_def)

lemma tempFile_exec_world: "tempFileName exec_world \<noteq> []"
  by (simp add: tempFileName_def exec_world_def example_world_def)

lemma can_write_exec_world: "can_write exec_world p"
  by (simp add: exec_world_def example_world_def)

lemma can_unlink_exec_world: "can_unlink exec_world p"
  by (simp add: exec_world_def example_world_def)

lemma trace_exec_world:
  "trace (run_exec_world evs)
     = [WriteFile (tempFileName exec_world), Spawn ''/usr/bin/claude'' [''-p''],
        Unlink (tempFileName exec_world)] @ completion (settled (runChild evs))"
  by (simp add: run_exec_world_def executeClaudeCode_def config_exec_world resolved_exec_world
      access_exec_world can_write_exec_world tempFile_exec_world cleanupTrace_def printArgs_def
      Let_def)

lemma outcome_exec_world: "outcome (run_exec_world evs) = settled (runChild evs)"
  by (simp add: run_exec_world_def executeClaudeCode_def config_exec_world resolved_exec_world
      access_exec_world can_write_exec_world Let_def)

lemmas child_defs = runChild_def exec_start_def handleEvent_def onClose_def settle_def Let_def

text \<open>
  The claim as it stands fails when the timer fires before the child closes: the promise is
  already rejected with the timeout error, and the later \<open>close\<close> event, with a non-zero or a
  zero exit code, does not change it.
\<close>

theorem timeout_wins_counterexample:
  "Spawn ''/usr/bin/claude'' [''-p''] \<in> set (trace (run_exec_world [TimerFired, Close (Some 143)]))
   \<and> outcome (run_exec_world [TimerFired, Close (Some 143)])
       = Some (Inl (Error ''Claude Code timed out after 5 minutes''))
   \<and> Spawn ''/usr/bin/claude'' [''-p'']
       \<in> set (trace (run_exec_world [StdoutData ''partial'', TimerFired, Close (Some 0)]))
   \<and> outcome (run_exec_world [StdoutData ''partial'', TimerFired, Close (Some 0)])
       = Some (Inl (Error ''Claude Code timed out after 5 minutes''))"
  by (simp add: trace_exec_world outcome_exec_world child_defs)

lemma showCode_2: "showCode (Some 2) = ''2''"
  by code_simp

lemma trim_ok: "trim ''  ok '' = ''ok''"
  by (simp add: trim_def isWhitespace_def)

theorem close_settles_when_first_witness:
  "Spawn ''/usr/bin/claude'' [''-p'']
       \<in> set (trace (run_exec_world ([StdoutData ''  ok '', StderrData ''warn''] @ Close (Some 0) # [])))
   \<and> list_all isData [StdoutData ''  ok '', StderrData ''warn'']
   \<and> outcome (run_exec_world ([StdoutData ''  ok '', StderrData ''warn''] @ Close (Some 0) # []))
       = Some (Inr ''ok'')
   \<and> outcome (run_exec_world ([StderrData ''boom''] @ Close (Some 2) # [TimerFired]))
       = Some (Inl (Error ''Claude Code error (code 2): boom''))"
proof -
  have s1: "Spawn ''/usr/bin/claude'' [''-p'']
       \<in> set (trace (run_exec_world ([StdoutData ''  ok '', StderrData ''warn''] @ Close (Some 0) # [])))"
    by (simp add: trace_exec_world)
  have d1: "list_all isData [StdoutData ''  ok '', StderrData ''warn'']"
    by (simp add: isData_def)
  have s2: "Spawn ''/usr/bin/claude'' [''-p'']
       \<in> set (trace (run_exec_world ([StderrData ''boom''] @ Close (Some 2) # [TimerFired])))"
    by (simp add: trace_exec_world)
  have d2: "list_all isData [StderrData ''boom'']"
    by (simp add: isData_def)
  show ?thesis
    using close_settles_when_first [OF s1 [unfolded run_exec_world_def] d1]
      close_settles_when_first [OF s2 [unfolded run_exec_world_def] d2] s1 d1
    by (simp add: run_exec_world_def [symmetric] showCode_2 trim_ok)
qed

theorem temp_file_removed_witness:
  "WriteFile (tempFileName exec_world) \<in> set (trace (run_exec_world [Close (Some 0)]))
   \<and> tempFileName exec_world \<noteq> []
   \<and> can_unlink exec_world (tempFileName exec_world)
   \<and> files (final_world (run_exec_world [Close (Some 0)])) (tempFileName exec_world) = None
   \<and> trace (run_exec_world [Close (Some 0)])
       = [WriteFile (tempFileName exec_world), Spawn ''/usr/bin/claude'' [''-p''],
          Unlink (tempFileName exec_world), Returned (Inr [])]
   \<and> files (final_world (run_exec_world [TimerFired])) (tempFileName exec_world) = None
   \<and> trace (run_exec_world [TimerFired])
       = [WriteFile (tempFileName exec_world), Spawn ''/usr/bin/claude'' [''-p''],
          Unlink (tempFileName exec_world),
          Returned (Inl (Error ''Claude Code timed out after 5 minutes''))]"
proof -
  have h: "WriteFile (tempFileName exec_world) \<in> set (trace (run_exec_world evs))" for evs
    by (simp add: trace_exec_world)
  have t: "trace (run_exec_world [Close (Some 0)])
       = [WriteFile (tempFileName exec_world), Spawn ''/usr/bin/claude'' [''-p''],
          Unlink (tempFileName exec_world), Returned (Inr [])]"
    by (simp add: trace_exec_world child_defs completion_def trim_def)
  have u: "trace (run_exec_world [TimerFired])
       = [WriteFile (tempFileName exec_world), Spawn ''/usr/bin/claude'' [''-p''],
          Unlink (tempFileName exec_world),
          Returned (Inl (Error ''Claude Code timed out after 5 minutes''))]"
    by (simp add: trace_exec_world child_defs completion_def)
  show ?thesis
    using temp_file_removed [OF h [unfolded run_exec_world_def] tempFile_exec_world,
        of "[Close (Some 0)]"]
      temp_file_removed [OF h [unfolded run_exec_world_def] tempFile_exec_world,
        of "[TimerFired]"]
      h tempFile_exec_world can_unlink_exec_world t u
    by (simp add: run_exec_world_def [symmetric])
qed

lemma env_empty_foo_world: "env empty_foo_world = [''FOO'' \<mapsto> []]"
  by (simp add: empty_foo_world_def)

lemma empty_foo_world_loaded: "loadClaudeRC empty_foo_world = loadClaudeRC rc_world"
  by (simp add: loadClaudeRC_def empty_foo_world_def rc_world_def example_world_def existsSync_def
      readFileSync_def rc_text_parsed)

lemma loaded_empty_foo_world:
  "loadedConfig new_provider empty_foo_world = Some (fast_config (Some ''/rc/claude''))"
  by (simp add: loadedConfig_def getRCConfig_def new_provider_def empty_foo_world_loaded
      rc_world_loaded getEffectiveConfig_def truthy_def env_empty_foo_world fast_config_def Let_def)

lemma loaded_rc_world:
  "loadedConfig new_provider rc_world = Some (fast_config (Some ''/rc/claude''))"
  by (simp add: loadedConfig_def config_rc_world)

lemma loaded_rc_world_flag:
  "loadedConfig new_provider rc_world_flag = Some (fast_config (Some ''claude --model sonnet -p''))"
  by (simp add: loadedConfig_def config_rc_world_flag)

lemma merge_foo: "mergeEnvironment [(''FOO'', ''bar'')] e ''FOO''
    = (if truthy (e ''FOO'') then e ''FOO'' else Some ''bar'')"
  by (simp add: mergeEnvironment_def mergeEntry_def)

text \<open>
  The claim as it stands fails for a variable that is set to the empty string: the test
  \<open>!process.env[key]\<close> takes it for unset, and the RC export replaces it.
\<close>

theorem empty_variable_overwritten_counterexample:
  "env empty_foo_world ''FOO'' = Some []
   \<and> env (final_world (executeClaudeCode (\<lambda>x. x) new_provider empty_foo_world ''hi'' no_params []))
        ''FOO'' = Some ''bar''"
  by (simp add: final_env loaded_empty_foo_world fast_config_def merge_foo env_empty_foo_world
      truthy_def)

theorem rc_exports_fill_only_falsy_keys_witness:
  "truthy (env rc_world_flag ''CLAUDE_CODE_COMMAND'')
   \<and> env (final_world (executeClaudeCode (\<lambda>x. x) new_provider rc_world_flag ''hi'' no_params []))
        ''CLAUDE_CODE_COMMAND'' = Some ''claude --model sonnet -p''
   \<and> env rc_world ''FOO'' = None
   \<and> env (final_world (executeClaudeCode (\<lambda>x. x) new_provider rc_world ''hi'' no_params []))
        ''FOO'' = Some ''bar''
   \<and> ''FOO'' \<in> fst ` set (environment (fast_config (Some ''/rc/claude'')))"
proof -
  have t: "truthy (env rc_world_flag ''CLAUDE_CODE_COMMAND'')"
    by (simp add: env_rc_world_flag truthy_def)
  have f: "env (final_world (executeClaudeCode (\<lambda>x. x) new_provider rc_world ''hi'' no_params []))
        ''FOO'' = Some ''bar''"
    by (simp add: final_env loaded_rc_world fast_config_def merge_foo env_rc_world truthy_def)
  have n: "env rc_world ''FOO'' = None"
    by (simp add: env_rc_world)
  show ?thesis
    using rc_exports_fill_only_falsy_keys
        [of rc_world_flag "''CLAUDE_CODE_COMMAND''" "\<lambda>x. x" new_provider "''hi''" no_params "[]"]
      rc_exports_fill_only_falsy_keys
        [of rc_world "''FOO''" "\<lambda>x. x" new_provider "''hi''" no_params "[]"]
      t f n
    by (simp add: env_rc_world_flag loaded_rc_world fast_config_def)
qed

section \<open>Object generation\<close>

lemma indexOf_None: "indexOf s c = None \<longleftrightarrow> c \<notin> set s"
  by (induction s) auto

lemma dropWhile_until: "c \<notin> set pre \<Longrightarrow> dropWhile (\<lambda>x. x \<noteq> c) (pre @ c # rest) = c # rest"
  by (induction pre) auto

lemma indexOf_first: "c \<notin> set pre \<Longrightarrow> indexOf (pre @ c # rest) c = Some (length pre)"
  by (induction pre) auto

lemma lastIndexOf_None: "lastIndexOf s c = None \<longleftrightarrow> c \<notin> set s"
proof -
  have "indexOf (rev s) c = None \<longleftrightarrow> c \<notin> set s"
    by (simp add: indexOf_None)
  then show ?thesis
    by (cases "indexOf (rev s) c") (simp_all add: lastIndexOf_def)
qed

lemma lastIndexOf_last: "c \<notin> set post \<Longrightarrow> lastIndexOf (xs @ c # post) c = Some (length xs)"
proof -
  assume "c \<notin> set post"
  then have "indexOf (rev post @ c # rev xs) c = Some (length post)"
    using indexOf_first [of c "rev post" "rev xs"] by simp
  then show ?thesis
    by (simp add: lastIndexOf_def)
qed

lemma braces_split:
  assumes "closesAfterOpening s"
  shows "\<exists>pre mid post. s = pre @ CHR ''{'' # mid @ CHR ''}'' # post
           \<and> CHR ''{'' \<notin> set pre \<and> CHR ''}'' \<notin> set post"
proof -
  have "CHR ''{'' \<in> set s"
  proof (rule ccontr)
    assume "CHR ''{'' \<notin> set s"
    then have "dropWhile (\<lambda>c. c \<noteq> CHR ''{'') s = []"
      by auto
    with assms show False
      by (simp add: closesAfterOpening_def)
  qed
  then obtain pre r where s: "s = pre @ CHR ''{'' # r" and pre: "CHR ''{'' \<notin> set pre"
    using split_list_first [of "CHR ''{''" s] by blast
  have d: "dropWhile (\<lambda>c. c \<noteq> CHR ''{'') s = CHR ''{'' # r"
    using pre by (simp add: s dropWhile_until)
  with assms have "CHR ''}'' \<in> set r"
    by (simp add: closesAfterOpening_def)
  then obtain mid post where r: "r = mid @ CHR ''}'' # post" and post: "CHR ''}'' \<notin> set post"
    using split_list_last [of "CHR ''}''" r] by blast
  from s r pre post show ?thesis by blast
qed

lemma firstToLast_split:
  assumes "CHR ''{'' \<notin> set pre" and "CHR ''}'' \<notin> set post"
  shows "firstToLast (pre @ CHR ''{'' # mid @ CHR ''}'' # post) = CHR ''{'' # mid @ [CHR ''}'']"
proof -
  have a: "dropWhile (\<lambda>c. c \<noteq> CHR ''{'') (pre @ CHR ''{'' # mid @ CHR ''}'' # post)
      = CHR ''{'' # mid @ CHR ''}'' # post"
    using assms(1) by (rule dropWhile_until)
  have b: "rev (CHR ''{'' # mid @ CHR ''}'' # post) = rev post @ CHR ''}'' # rev mid @ [CHR ''{'']"
    by simp
  have c: "dropWhile (\<lambda>c. c \<noteq> CHR ''}'') (rev post @ CHR ''}'' # rev mid @ [CHR ''{''])
      = CHR ''}'' # rev mid @ [CHR ''{'']"
    using assms(2) by (simp add: dropWhile_until)
  show ?thesis
    unfolding firstToLast_def a b c by simp
qed

lemma substring_split:
  "substring (pre @ CHR ''{'' # mid @ CHR ''}'' # post) (length pre) (length pre + Suc (length mid) + 1)
     = CHR ''{'' # mid @ [CHR ''}'']"
  by (simp add: substring_def min_def max_def)

lemma jsonTextOf_in_order:
  assumes "closesAfterOpening (strippedText text)"
  shows "jsonTextOf text = firstToLast (strippedText text)"
proof -
  from braces_split [OF assms] obtain pre mid post where
    s: "strippedText text = pre @ CHR ''{'' # mid @ CHR ''}'' # post"
    and pre: "CHR ''{'' \<notin> set pre" and post: "CHR ''}'' \<notin> set post"
    by blast
  have i: "indexOf (strippedText text) (CHR ''{'') = Some (length pre)"
    unfolding s using pre by (rule indexOf_first)
  have "lastIndexOf ((pre @ CHR ''{'' # mid) @ CHR ''}'' # post) (CHR ''}'')
      = Some (length (pre @ CHR ''{'' # mid))"
    using post by (rule lastIndexOf_last)
  then have j: "lastIndexOf (strippedText text) (CHR ''}'') = Some (length pre + Suc (length mid))"
    by (simp add: s)
  have "jsonTextOf text
      = substring (strippedText text) (length pre) (length pre + Suc (length mid) + 1)"
    using i j by (simp add: jsonTextOf_def strippedText_def [symmetric] Let_def)
  also have "\<dots> = CHR ''{'' # mid @ [CHR ''}'']"
    unfolding s by (rule substring_split)
  also have "\<dots> = firstToLast (strippedText text)"
    unfolding s using firstToLast_split [OF pre post] by simp
  finally show ?thesis .
qed

lemma takeWhile_until: "c \<notin> set pre \<Longrightarrow> takeWhile (\<lambda>x. x \<noteq> c) (pre @ c # rest) = pre"
  by (induction pre) auto

lemma braces_reversed:
  assumes "CHR ''{'' \<in> set s" and "CHR ''}'' \<in> set s" and "\<not> closesAfterOpening s"
  shows "\<exists>pre mid post. s = pre @ CHR ''}'' # mid @ CHR ''{'' # post
           \<and> CHR ''{'' \<notin> set mid \<and> CHR ''}'' \<notin> set mid
           \<and> CHR ''{'' \<notin> set pre \<and> CHR ''}'' \<notin> set post"
proof -
  from assms(1) obtain p post where s: "s = p @ CHR ''{'' # post" and p: "CHR ''{'' \<notin> set p"
    using split_list_first [of "CHR ''{''" s] by blast
  have "dropWhile (\<lambda>c. c \<noteq> CHR ''{'') s = CHR ''{'' # post"
    using p by (simp add: s dropWhile_until)
  with assms(3) have post: "CHR ''}'' \<notin> set post"
    by (simp add: closesAfterOpening_def)
  with assms(2) have "CHR ''}'' \<in> set p"
    by (auto simp: s)
  then obtain pre mid where q: "p = pre @ CHR ''}'' # mid" and mid: "CHR ''}'' \<notin> set mid"
    using split_list_last [of "CHR ''}''" p] by blast
  from p q have "CHR ''{'' \<notin> set pre" and "CHR ''{'' \<notin> set mid"
    by auto
  with s q mid post show ?thesis
    by auto
qed

lemma lastToFirst_split:
  assumes "CHR ''{'' \<notin> set mid" and "CHR ''}'' \<notin> set mid" and "CHR ''}'' \<notin> set post"
  shows "lastToFirst (pre @ CHR ''}'' # mid @ CHR ''{'' # post) = mid"
proof -
  have a: "rev (pre @ CHR ''}'' # mid @ CHR ''{'' # post)
      = (rev post @ CHR ''{'' # rev mid) @ CHR ''}'' # rev pre"
    by simp
  have b: "takeWhile (\<lambda>c. c \<noteq> CHR ''}'') ((rev post @ CHR ''{'' # rev mid) @ CHR ''}'' # rev pre)
      = rev post @ CHR ''{'' # rev mid"
    using assms(2,3) by (intro takeWhile_until) simp
  have c: "rev (rev post @ CHR ''{'' # rev mid) = mid @ CHR ''{'' # post"
    by simp
  show ?thesis
    unfolding lastToFirst_def a b c using assms(1) by (rule takeWhile_until)
qed

text \<open>
  With the closing brace first, \<open>substring\<close> gets a start behind its end and swaps the two:
  what it returns lies between the braces and contains neither.
\<close>

lemma substring_reversed:
  "substring (pre @ CHR ''}'' # mid @ CHR ''{'' # post) (length pre + Suc (length mid)) (length pre + 1)
     = mid"
  by (simp add: substring_def min_def max_def)

lemma jsonTextOf_out_of_order:
  assumes "CHR ''{'' \<in> set (strippedText text)" and "CHR ''}'' \<in> set (strippedText text)"
      and "\<not> closesAfterOpening (strippedText text)"
  shows "jsonTextOf text = lastToFirst (strippedText text)"
proof -
  from braces_reversed [OF assms] obtain pre mid post where
    s: "strippedText text = pre @ CHR ''}'' # mid @ CHR ''{'' # post"
    and mid: "CHR ''{'' \<notin> set mid" "CHR ''}'' \<notin> set mid"
    and pre: "CHR ''{'' \<notin> set pre" and post: "CHR ''}'' \<notin> set post"
    by blast
  have "indexOf ((pre @ CHR ''}'' # mid) @ CHR ''{'' # post) (CHR ''{'')
      = Some (length (pre @ CHR ''}'' # mid))"
    using pre mid(1) by (intro indexOf_first) simp
  then have i: "indexOf (strippedText text) (CHR ''{'') = Some (length pre + Suc (length mid))"
    by (simp add: s)
  have j: "lastIndexOf (strippedText text) (CHR ''}'') = Some (length pre)"
    unfolding s using mid(2) post by (intro lastIndexOf_last) simp
  have "jsonTextOf text
      = substring (strippedText text) (length pre + Suc (length mid)) (length pre + 1)"
    using i j by (simp add: jsonTextOf_def strippedText_def [symmetric] Let_def)
  also have "\<dots> = mid"
    unfolding s by (rule substring_reversed)
  also have "\<dots> = lastToFirst (strippedText text)"
    unfolding s using lastToFirst_split [OF mid post] by simp
  finally show ?thesis .
qed

lemma jsonTextOf_no_braces:
  assumes "CHR ''{'' \<notin> set (strippedText text) \<or> CHR ''}'' \<notin> set (strippedText text)"
  shows "jsonTextOf text = strippedText text"
proof -
  from assms have "indexOf (strippedText text) (CHR ''{'') = None
      \<or> lastIndexOf (strippedText text) (CHR ''}'') = None"
    by (simp add: indexOf_None lastIndexOf_None)
  then show ?thesis
    by (auto simp: jsonTextOf_def strippedText_def [symmetric] Let_def split: option.splits)
qed

lemma jsonTextOf_amended: "jsonTextOf text = amendedJsonText text"
proof (cases "CHR ''{'' \<in> set (strippedText text) \<and> CHR ''}'' \<in> set (strippedText text)")
  case True
  show ?thesis
  proof (cases "closesAfterOpening (strippedText text)")
    case c: True
    then have "jsonTextOf text = firstToLast (strippedText text)"
      by (rule jsonTextOf_in_order)
    with True c show ?thesis
      by (simp add: amendedJsonText_def Let_def)
  next
    case c: False
    with True have "jsonTextOf text = lastToFirst (strippedText text)"
      by (simp add: jsonTextOf_out_of_order)
    with True c show ?thesis
      by (simp add: amendedJsonText_def Let_def)
  qed
next
  case False
  then have "jsonTextOf text = strippedText text"
    using jsonTextOf_no_braces [of "text"] by blast
  with False show ?thesis
    by (auto simp: amendedJsonText_def Let_def)
qed

text \<open>
  C8, as amended. When \<open>generateText\<close> has returned a text, \<open>generateObject\<close> hands to the JSON
  parser the text obtained from the trimmed text by deleting every \<open>```json\<close> marker together
  with the white space behind it, then every \<open>```\<close> marker together with the white space behind
  it, and, when an opening brace occurs and a closing brace occurs behind it, keeping the part from
  the first opening brace through the last closing brace. (When both braces occur and every
  closing brace stands before the first opening brace, the part strictly between the last closing
  and the first opening brace is kept; with one kind of brace missing, the whole text.) It returns
  the parsed value; and when the parser fails with a message, it raises, through
  \<open>handleError\<close>, the error whose message is
  \<open>Failed to parse JSON from Claude Code response: \<close> followed by that message. This holds for
  every parser. The witness is the claim's own example, with the parser for the JSON fragment.
\<close>

theorem generateObject_parses_json_text:
  assumes "generateText fr H inst w (modifyMessages objectName messages) mId evs = Some (Inr text)"
  shows "generateObject fr H P inst w messages objectName mId evs
      = Some (case P (amendedJsonText text) of
                Inl m \<Rightarrow> Inl (H ''object generation'' (Error (parseFailureMessage m)))
              | Inr parsedObject \<Rightarrow> Inr parsedObject)"
  using assms jsonTextOf_amended [of "text"]
  by (simp add: generateObject_def parseResponse_def split: sum.splits)

lemmas strip_defs = strippedText_def trim_def isWhitespace_def startsWith_def

lemma stripped_fenced:
  "strippedText fenced_text
     = ''Here is the JSON:'' @ [newline] @ ''{'' @ [dquote] @ ''a'' @ [dquote] @ '':1}''
         @ [newline] @ ''Hope it helps''"
  by (simp add: strip_defs fenced_text_def)

lemma closes_fenced: "closesAfterOpening (strippedText fenced_text)"
  by (simp add: closesAfterOpening_def stripped_fenced)

lemma amended_fenced:
  "amendedJsonText fenced_text = ''{'' @ [dquote] @ ''a'' @ [dquote] @ '':1}''"
proof -
  have "amendedJsonText fenced_text = firstToLast (strippedText fenced_text)"
    using closes_fenced by (simp add: amendedJsonText_def Let_def stripped_fenced)
  then show ?thesis
    by (simp add: stripped_fenced firstToLast_def)
qed

lemma parse_a1:
  "JSON_parse_fragment (''{'' @ [dquote] @ ''a'' @ [dquote] @ '':1}'') = Inr (JObject [(''a'', JNumber 1)])"
  by code_simp

lemma trim_fenced: "trim fenced_text = fenced_text"
  by (simp add: trim_def isWhitespace_def fenced_text_def)

lemma outcome_exec_world_any:
  "outcome (executeClaudeCode fr new_provider exec_world input no_params evs) = settled (runChild evs)"
  by (simp add: executeClaudeCode_def config_exec_world resolved_exec_world
      access_exec_world can_write_exec_world Let_def)

lemma modified_user_message:
  "modifyMessages objectName [user_message] \<noteq> []"
  by (simp add: modifyMessages_def user_message_def)

lemma generateText_exec_world:
  assumes "messages \<noteq> []"
  shows "generateText fr H new_provider exec_world messages None evs
      = (case settled (runChild evs) of
           None \<Rightarrow> None
         | Some (Inl e) \<Rightarrow> Some (Inl (H ''text generation'' e))
         | Some (Inr result) \<Rightarrow> Some (Inr result))"
  using assms
  by (simp add: generateText_def outcome_exec_world_any [unfolded no_params_def])

lemma stdout_then_close:
  "settled (runChild [StdoutData t, Close (Some 0)]) = Some (Inr (trim t))"
  by (simp add: child_defs)

lemma generateText_fenced:
  "generateText (\<lambda>x. x) rethrow new_provider exec_world
       (modifyMessages ''object'' [user_message]) None [StdoutData fenced_text, Close (Some 0)]
     = Some (Inr fenced_text)"
  by (simp add: generateText_exec_world [OF modified_user_message] stdout_then_close trim_fenced)

theorem generateObject_parses_json_text_witness:
  "generateText (\<lambda>x. x) rethrow new_provider exec_world
       (modifyMessages ''object'' [user_message]) None [StdoutData fenced_text, Close (Some 0)]
     = Some (Inr fenced_text)
   \<and> generateObject (\<lambda>x. x) rethrow JSON_parse_fragment new_provider exec_world
       [user_message] ''object'' None [StdoutData fenced_text, Close (Some 0)]
     = Some (Inr (JObject [(''a'', JNumber 1)]))"
  using generateObject_parses_json_text
      [of "\<lambda>x. x" rethrow new_provider exec_world "''object''" "[user_message]" None
          "[StdoutData fenced_text, Close (Some 0)]" fenced_text JSON_parse_fragment]
    generateText_fenced
  by (simp add: amended_fenced parse_a1 del: append.simps)

lemma jsonTextOf_braces_swapped: "jsonTextOf ''} x {'' = '' x ''"
  by code_simp

lemma trim_spaced: "trim spaced_fence_text = spaced_fence_text"
  by (simp add: trim_def isWhitespace_def spaced_fence_text_def)

lemma jsonText_spaced:
  "jsonTextOf spaced_fence_text
     = ''{'' @ [dquote] @ ''t'' @ [dquote] @ '':'' @ [dquote] @ ''ab'' @ [dquote] @ ''}''"
  by code_simp

lemma claimed_spaced:
  "claimedJsonText spaced_fence_text
     = ''{'' @ [dquote] @ ''t'' @ [dquote] @ '':'' @ [dquote] @ ''a b'' @ [dquote] @ ''}''"
  by code_simp

lemma parse_ab:
  "JSON_parse_fragment (''{'' @ [dquote] @ ''t'' @ [dquote] @ '':'' @ [dquote] @ ''ab'' @ [dquote] @ ''}'')
     = Inr (JObject [(''t'', JString ''ab'')])"
  by code_simp

lemma parse_a_b:
  "JSON_parse_fragment (''{'' @ [dquote] @ ''t'' @ [dquote] @ '':'' @ [dquote] @ ''a b'' @ [dquote] @ ''}'')
     = Inr (JObject [(''t'', JString ''a b'')])"
  by code_simp

text \<open>
  The claim as it stands fails when white space follows a fence marker inside the braces: the
  method deletes the space with the marker, so that it returns \<open>{t: "ab"}\<close> where deleting the
  markers alone gives \<open>{t: "a b"}\<close>.
\<close>

theorem fence_whitespace_counterexample:
  "generateObject (\<lambda>x. x) rethrow JSON_parse_fragment new_provider exec_world
       [user_message] ''object'' None [StdoutData spaced_fence_text, Close (Some 0)]
     = Some (Inr (JObject [(''t'', JString ''ab'')]))
   \<and> JSON_parse_fragment (claimedJsonText spaced_fence_text)
     = Inr (JObject [(''t'', JString ''a b'')])"
  by (simp add: generateObject_def generateText_exec_world [OF modified_user_message]
      stdout_then_close trim_spaced parseResponse_def jsonText_spaced parse_ab claimed_spaced
      parse_a_b del: append.simps)

end
